theory Spec2Isabelle
  imports Complex_Main "HOL-Library.Word"
begin

unbundle bit_operations_syntax

section \<open>JavaScript values as the page receives them\<close>

text \<open>
  Every inbound socket message is the result of \<^verbatim>\<open>JSON.parse(event.data)\<close>. The handlers of
  \<^verbatim>\<open>VoiceAssistantPage.jsx\<close> read properties of that value, test them for truthiness and
  copy them into React state, so the embedding keeps the value untyped, as the page does.
  Numbers are the integers (indices, counts, flags); objects are association lists read
  by their first matching key.
\<close>

datatype jsval =
    JUndefined
  | JNull
  | JBool bool
  | JNum int
  | JStr string
  | JArr "jsval list"
  | JObj "(string \<times> jsval) list"

datatype js_error =
    SyntaxError
  | TypeError
  | RangeError
  | InvalidCharacterError
  | NotSupportedError

text \<open>Truthiness, as used by \<^verbatim>\<open>if (x)\<close>, \<^verbatim>\<open>x && y\<close> and \<^verbatim>\<open>x || y\<close>.\<close>

fun truthy :: "jsval \<Rightarrow> bool" where
  "truthy JUndefined = False"
| "truthy JNull = False"
| "truthy (JBool b) = b"
| "truthy (JNum n) = (n \<noteq> 0)"
| "truthy (JStr s) = (s \<noteq> [])"
| "truthy (JArr xs) = True"
| "truthy (JObj kvs) = True"

definition js_or :: "jsval \<Rightarrow> jsval \<Rightarrow> jsval" where
  "js_or a b = (if truthy a then a else b)"

definition nullish :: "jsval \<Rightarrow> bool" where
  "nullish v = (v = JUndefined \<or> v = JNull)"

text \<open>
  \<^verbatim>\<open>v.k\<close> on a value that is not null or undefined. None of the property names the page
  reads exists on a string, number, boolean or array, so only objects answer.
\<close>

fun js_prop :: "jsval \<Rightarrow> string \<Rightarrow> jsval" where
  "js_prop (JObj kvs) k = (case map_of kvs k of Some v \<Rightarrow> v | None \<Rightarrow> JUndefined)"
| "js_prop v k = JUndefined"

text \<open>\<^verbatim>\<open>v.k\<close> in general: reading a property of null or undefined throws a TypeError.\<close>

definition js_get :: "jsval \<Rightarrow> string \<Rightarrow> js_error + jsval" where
  "js_get v k = (if nullish v then Inl TypeError else Inr (js_prop v k))"

text \<open>\<^verbatim>\<open>v?.k\<close>: optional chaining never throws.\<close>

definition opt_get :: "jsval \<Rightarrow> string \<Rightarrow> jsval" where
  "opt_get v k = (if nullish v then JUndefined else js_prop v k)"

text \<open>String conversion, as done by template literals, \<^verbatim>\<open>+\<close> on a string and computed keys.\<close>

fun digits :: "nat \<Rightarrow> string" where
  "digits n =
     (if n < 10 then [''0123456789'' ! n]
      else digits (n div 10) @ [''0123456789'' ! (n mod 10)])"

declare digits.simps [simp del]

definition numberToString :: "int \<Rightarrow> string" where
  "numberToString i = (if 0 \<le> i then digits (nat i) else CHR ''-'' # digits (nat (- i)))"

fun js_toString :: "jsval \<Rightarrow> string"
  and js_join :: "jsval list \<Rightarrow> string" where
  "js_toString JUndefined = ''undefined''"
| "js_toString JNull = ''null''"
| "js_toString (JBool b) = (if b then ''true'' else ''false'')"
| "js_toString (JNum n) = numberToString n"
| "js_toString (JStr s) = s"
| "js_toString (JArr xs) = js_join xs"
| "js_toString (JObj kvs) = ''[object Object]''"
| "js_join [] = []"
| "js_join (x # xs) =
     (if x = JUndefined \<or> x = JNull then [] else js_toString x)
     @ (if xs = [] then [] else '','' @ js_join xs)"

section \<open>PCM16 encoding and decoding\<close>

text \<open>
  A Float32Array element is a finite number or NaN. A finite float32 has a 24-bit
  significand, so its products with \<^verbatim>\<open>0x8000\<close> and \<^verbatim>\<open>0x7fff\<close> are exact in double
  arithmetic, and so is an int16 divided by 32768: on these values real arithmetic is
  the program's arithmetic.
\<close>

datatype sample = Sample real | NaN

text \<open>\<^verbatim>\<open>Math.max(-1, Math.min(1, x))\<close>; NaN propagates through both.\<close>

fun clampSample :: "sample \<Rightarrow> sample" where
  "clampSample NaN = NaN"
| "clampSample (Sample v) = Sample (max (- 1) (min 1 v))"

text \<open>\<^verbatim>\<open>s < 0 ? s * 0x8000 : s * 0x7fff\<close>; a comparison with NaN is false.\<close>

fun scaleSample :: "sample \<Rightarrow> sample" where
  "scaleSample NaN = NaN"
| "scaleSample (Sample s) = Sample (if s < 0 then s * 32768 else s * 32767)"

definition js_trunc :: "real \<Rightarrow> int" where
  "js_trunc v = (if v < 0 then \<lceil>v\<rceil> else \<lfloor>v\<rfloor>)"

text \<open>
  The conversion of \<^verbatim>\<open>DataView.setInt16\<close>: NaN becomes 0, any other number is truncated
  towards zero and wrapped modulo \<open>2 ^ 16\<close>.
\<close>

fun toInt16 :: "sample \<Rightarrow> 16 word" where
  "toInt16 NaN = 0"
| "toInt16 (Sample v) = word_of_int (js_trunc v)"

definition setInt16_le :: "16 word \<Rightarrow> 8 word list" where
  "setInt16_le w = [ucast w, ucast (drop_bit 8 w)]"

definition getInt16_le :: "8 word \<Rightarrow> 8 word \<Rightarrow> 16 word" where
  "getInt16_le lo hi = push_bit 8 (ucast hi) OR ucast lo"

fun floatTo16BitPCM :: "sample list \<Rightarrow> 8 word list" where
  "floatTo16BitPCM [] = []"
| "floatTo16BitPCM (x # xs) =
     setInt16_le (toInt16 (scaleSample (clampSample x))) @ floatTo16BitPCM xs"

text \<open>
  The decoding loop of \<^verbatim>\<open>playAudio\<close>: \<^verbatim>\<open>numSamples = byteLength / 2\<close>, and sample \<open>i\<close> is
  \<^verbatim>\<open>getInt16(i * 2, true) / 32768.0\<close>. With an odd byte length the last read runs past
  the buffer and throws a RangeError.
\<close>

fun pcm16ToFloat32 :: "8 word list \<Rightarrow> js_error + real list" where
  "pcm16ToFloat32 [] = Inr []"
| "pcm16ToFloat32 [b] = Inl RangeError"
| "pcm16ToFloat32 (lo # hi # bs) =
     (case pcm16ToFloat32 bs of
        Inl e \<Rightarrow> Inl e
      | Inr fs \<Rightarrow> Inr (real_of_int (sint (getInt16_le lo hi)) / 32768 # fs))"

section \<open>Capture-path resampling\<close>

definition targetSampleRate :: real where
  "targetSampleRate = 24000"

text \<open>\<^verbatim>\<open>Math.round\<close>: the nearest integer, a tie going up.\<close>

definition js_round :: "real \<Rightarrow> int" where
  "js_round x = \<lfloor>x + 1 / 2\<rfloor>"

text \<open>
  Reading a typed array outside its bounds gives \<^verbatim>\<open>undefined\<close>, which a Float32Array
  stores as NaN.
\<close>

definition readSample :: "sample list \<Rightarrow> int \<Rightarrow> sample" where
  "readSample xs k = (if 0 \<le> k \<and> k < int (length xs) then xs ! nat k else NaN)"

definition resampleIndex :: "real \<Rightarrow> nat \<Rightarrow> int" where
  "resampleIndex ratio i = js_round (real i * ratio)"

definition resampleLength :: "real \<Rightarrow> nat \<Rightarrow> int" where
  "resampleLength ratio len = js_round (real len / ratio)"

text \<open>
  The resampling block of \<^verbatim>\<open>onaudioprocess\<close>. The ratio and the two roundings are taken
  in exact arithmetic; \<open>sourceSampleRate\<close> is the positive rate of the audio context.
\<close>

definition resample :: "real \<Rightarrow> sample list \<Rightarrow> sample list" where
  "resample sourceSampleRate inputData =
     (if sourceSampleRate \<noteq> targetSampleRate then
        (let ratio = sourceSampleRate / targetSampleRate;
             newLength = resampleLength ratio (length inputData)
         in map (\<lambda>i. readSample inputData (resampleIndex ratio i)) [0..<nat newLength])
      else inputData)"

section \<open>Session state\<close>

text \<open>
  The React state and refs of the page, in one record. A state setter writes its field; a
  ref is a field of its own. Calls into the browser that only produce an effect are kept
  as logs: \<open>sent\<close> (socket sends), \<open>started\<close> and \<open>stopped\<close> (buffer sources started and
  stopped) and \<open>navigated\<close>.
\<close>

datatype mode = Idle | Browsing | Quiz | Lesson | Assignment

record dialogue_context =
  mode :: mode
  course :: jsval
  lesson :: jsval
  quiz :: jsval
  assignment :: jsval
  quizQuestions :: jsval
  currentQuestionIndex :: jsval
  quizAnswers :: "string \<rightharpoonup> jsval"
  pendingConfirmation :: jsval

datatype role = RUser | RAssistant | RSystem | RError

text \<open>
  A conversation message; its \<^verbatim>\<open>id\<close> and \<^verbatim>\<open>timestamp\<close> are read from the clock and carry no
  behaviour, so they are left out.
\<close>

record conversation_message =
  role :: role
  content :: jsval

datatype ready_state = CONNECTING | OPEN | CLOSING | CLOSED

text \<open>
  Outbound socket messages. \<open>AudioAppend\<close> carries the PCM bytes that the page frames as
  base64 text in the \<^verbatim>\<open>audio\<close> field.
\<close>

datatype outbound = AudioAppend "8 word list" | AudioCommit | ResponseCancel

text \<open>
  A scheduled buffer source: its handle, its start time and its decoded samples. Times
  are seconds on the clock of the audio context, taken as real numbers.
\<close>

record audio_source =
  src_id :: nat
  src_start :: real
  src_samples :: "real list"

text \<open>\<^verbatim>\<open>audioBuffer.duration\<close> of a buffer created at 24000 Hz.\<close>

definition duration :: "audio_source \<Rightarrow> real" where
  "duration src = real (length (src_samples src)) / 24000"

record state =
  isConnected :: bool
  isConnecting :: bool
  connectionError :: "string option"
  isListening :: bool
  isSpeaking :: bool
  isProcessing :: bool
  rateLimitWait :: int
  messages :: "conversation_message list"
  currentTranscript :: string
  aiTranscript :: string
  currentContext :: dialogue_context
  displayContent :: jsval
  lessonAudioPlaying :: bool
  aiPaused :: bool
  pendingLessonAudio :: "string option"
  readyToPlayLessonAudio :: bool
  lessonAudioRef :: "string option"
  pendingLessonAudioRef :: "string option"
  wsRef :: "ready_state option"
  onmessageTranscript :: string
  processorRef :: bool
  mediaStreamRef :: bool
  audioQueueRef :: "jsval list"
  isListeningRef :: bool
  audioPlaybackTimeRef :: real
  activeAudioSourcesRef :: "audio_source list"
  sent :: "outbound list"
  started :: "audio_source list"
  stopped :: "nat list"
  navigated :: "jsval list"

text \<open>
  What the page takes from its surroundings: the API base URL of the build, the base64
  decoder \<^verbatim>\<open>atob\<close> (\<open>None\<close> when it rejects its input) and, for a rate-limit message, the
  seconds matched by \<^verbatim>\<open>/try again in ([\d.]+)s/\<close>, rounded up (\<open>None\<close> without a match).
\<close>

record env =
  VITE_API_URL :: string
  atob :: "string \<Rightarrow> 8 word list option"
  retryAfter :: "string \<Rightarrow> int option"

definition initialContext :: dialogue_context where
  "initialContext =
     \<lparr>mode = Idle, course = JNull, lesson = JNull, quiz = JNull, assignment = JNull,
      quizQuestions = JArr [], currentQuestionIndex = JNum 0, quizAnswers = Map.empty,
      pendingConfirmation = JNull\<rparr>"

definition initialState :: state where
  "initialState =
     \<lparr>isConnected = False, isConnecting = False, connectionError = None,
      isListening = False, isSpeaking = False, isProcessing = False, rateLimitWait = 0,
      messages = [], currentTranscript = [], aiTranscript = [],
      currentContext = initialContext, displayContent = JNull,
      lessonAudioPlaying = False, aiPaused = False, pendingLessonAudio = None,
      readyToPlayLessonAudio = False, lessonAudioRef = None, pendingLessonAudioRef = None,
      wsRef = None, onmessageTranscript = [], processorRef = False, mediaStreamRef = False,
      audioQueueRef = [], isListeningRef = False, audioPlaybackTimeRef = 0,
      activeAudioSourcesRef = [], sent = [], started = [], stopped = [], navigated = []\<rparr>"

text \<open>A string-or-null value is truthy when it is a non-empty string.\<close>

definition truthyStr :: "string option \<Rightarrow> bool" where
  "truthyStr u = (case u of None \<Rightarrow> False | Some w \<Rightarrow> w \<noteq> [])"

definition addMessage :: "role \<Rightarrow> jsval \<Rightarrow> state \<Rightarrow> state" where
  "addMessage r c s = s\<lparr>messages := messages s @ [\<lparr>role = r, content = c\<rparr>]\<rparr>"

text \<open>The leading glyphs of the notices, byte for byte.\<close>

definition glyphWait :: string where
  "glyphWait = [CHR 0xE2, CHR 0x80, CHR 0x9A, CHR 0xC3, CHR 0xA8, CHR 0xE2, CHR 0x89, CHR 0xA5]"

definition glyphHeadphones :: string where
  "glyphHeadphones =
     [CHR 0xEF, CHR 0xA3, CHR 0xBF, CHR 0xC3, CHR 0xBC, CHR 0xC3, CHR 0xA9, CHR 0xC3, CHR 0x9F]"

definition glyphCheck :: string where
  "glyphCheck = [CHR 0xE2, CHR 0x80, CHR 0x9A, CHR 0xC3, CHR 0xBA, CHR 0xC3, CHR 0x96]"

definition glyphMic :: string where
  "glyphMic =
     [CHR 0xEF, CHR 0xA3, CHR 0xBF, CHR 0xC3, CHR 0xBC, CHR 0xC3, CHR 0xA9, CHR 0xC2, CHR 0xA7]"

section \<open>Playback scheduler\<close>

text \<open>
  \<^verbatim>\<open>playAudio\<close>, with the clock reading \<open>now\<close> of \<^verbatim>\<open>audioContext.currentTime\<close>. Its whole body
  is inside \<^verbatim>\<open>try\<close>: a chunk that \<^verbatim>\<open>atob\<close> rejects, that has an odd byte length, or that is
  empty (\<^verbatim>\<open>createBuffer\<close> refuses a length of 0) is logged and dropped, the state untouched.
\<close>

definition playAudio :: "env \<Rightarrow> real \<Rightarrow> jsval \<Rightarrow> state \<Rightarrow> state" where
  "playAudio e now base64Audio s =
     (case atob e (js_toString base64Audio) of
        None \<Rightarrow> s
      | Some pcmData \<Rightarrow>
          (case pcm16ToFloat32 pcmData of
             Inl err \<Rightarrow> s
           | Inr float32Array \<Rightarrow>
               if float32Array = [] then s
               else
                 (let startTime = max now (audioPlaybackTimeRef s);
                      source = \<lparr>src_id = length (started s), src_start = startTime,
                                src_samples = float32Array\<rparr>
                  in s\<lparr>started := started s @ [source],
                       activeAudioSourcesRef := activeAudioSourcesRef s @ [source],
                       audioPlaybackTimeRef := startTime + duration source\<rparr>)))"

text \<open>\<^verbatim>\<open>source.onended\<close>: natural completion removes the handle from the active set.\<close>

definition source_onended :: "nat \<Rightarrow> state \<Rightarrow> state" where
  "source_onended i s =
     s\<lparr>activeAudioSourcesRef := filter (\<lambda>x. src_id x \<noteq> i) (activeAudioSourcesRef s)\<rparr>"

definition interruptAudio :: "state \<Rightarrow> state" where
  "interruptAudio s =
     s\<lparr>stopped := stopped s @ map src_id (activeAudioSourcesRef s),
       activeAudioSourcesRef := [],
       audioQueueRef := [],
       audioPlaybackTimeRef := 0,
       isSpeaking := False,
       sent := sent s @ (if wsRef s = Some OPEN then [ResponseCancel] else [])\<rparr>"

text \<open>
  The loop of \<^verbatim>\<open>processAudioQueue\<close>: shift a chunk, play it, until the queue is empty. The
  waits inside (\<^verbatim>\<open>await playAudio\<close>, the resume of the audio context) are taken to
  finish before the next event is handled.
\<close>

fun playQueue :: "env \<Rightarrow> real \<Rightarrow> jsval list \<Rightarrow> state \<Rightarrow> state" where
  "playQueue e now [] s = s"
| "playQueue e now (d # ds) s = playQueue e now ds (playAudio e now d (s\<lparr>audioQueueRef := ds\<rparr>))"

definition processAudioQueue :: "env \<Rightarrow> real \<Rightarrow> state \<Rightarrow> state" where
  "processAudioQueue e now s =
     (if audioQueueRef s = [] then s
      else playQueue e now (audioQueueRef s) (s\<lparr>isSpeaking := True\<rparr>))"

definition resetAudioPlayback :: "state \<Rightarrow> state" where
  "resetAudioPlayback s = s\<lparr>audioPlaybackTimeRef := 0, isSpeaking := False\<rparr>"

section \<open>Dialogue context controller\<close>

text \<open>Object spread \<^verbatim>\<open>{...v}\<close> and the literal \<^verbatim>\<open>{...v, k: x}\<close>.\<close>

fun js_spread :: "jsval \<Rightarrow> (string \<times> jsval) list" where
  "js_spread (JObj kvs) = kvs"
| "js_spread (JStr cs) = map (\<lambda>(i, c). (digits i, JStr [c])) (enumerate 0 cs)"
| "js_spread (JArr xs) = map (\<lambda>(i, x). (digits i, x)) (enumerate 0 xs)"
| "js_spread v = []"

fun obj_set :: "(string \<times> jsval) list \<Rightarrow> string \<Rightarrow> jsval \<Rightarrow> (string \<times> jsval) list" where
  "obj_set [] k v = [(k, v)]"
| "obj_set ((k', v') # kvs) k v =
     (if k' = k then (k, v) # kvs else (k', v') # obj_set kvs k v)"

definition setCurrentContext ::
  "(dialogue_context \<Rightarrow> dialogue_context) \<Rightarrow> state \<Rightarrow> state" where
  "setCurrentContext f s = s\<lparr>currentContext := f (currentContext s)\<rparr>"

text \<open>
  The actions that \<^verbatim>\<open>handleContextUpdate\<close> tells apart, and the chain of \<^verbatim>\<open>===\<close> tests on
  \<^verbatim>\<open>data.action\<close> that selects one; any other value falls through every test.
\<close>

datatype context_action =
    StartQuiz
  | ShowQuestion
  | PendingAnswer
  | AnswerConfirmed
  | AnswerCancelled
  | QuizCompleted
  | StartLesson
  | StartAssignment
  | ConfirmSubmission
  | SubmissionComplete
  | ShowCourses
  | ShowProgress
  | EnrollmentComplete
  | ShowAssignments
  | ShowQuizzes
  | Navigate
  | ClearDisplay
  | OtherAction

definition actionOf :: "jsval \<Rightarrow> context_action" where
  "actionOf a =
     (if a = JStr ''start_quiz'' then StartQuiz
      else if a = JStr ''show_question'' then ShowQuestion
      else if a = JStr ''pending_answer'' then PendingAnswer
      else if a = JStr ''answer_confirmed'' then AnswerConfirmed
      else if a = JStr ''answer_cancelled'' then AnswerCancelled
      else if a = JStr ''quiz_completed'' then QuizCompleted
      else if a = JStr ''start_lesson'' then StartLesson
      else if a = JStr ''start_assignment'' then StartAssignment
      else if a = JStr ''confirm_submission'' then ConfirmSubmission
      else if a = JStr ''submission_complete'' then SubmissionComplete
      else if a = JStr ''show_courses'' then ShowCourses
      else if a = JStr ''show_progress'' then ShowProgress
      else if a = JStr ''enrollment_complete'' then EnrollmentComplete
      else if a = JStr ''show_assignments'' then ShowAssignments
      else if a = JStr ''show_quizzes'' then ShowQuizzes
      else if a = JStr ''navigate'' then Navigate
      else if a = JStr ''clear_display'' then ClearDisplay
      else OtherAction)"

text \<open>
  \<^verbatim>\<open>handleContextUpdate\<close>. The result pairs the exception thrown, if any, with the state:
  updates queued before a throw stay. Two reads can throw: \<^verbatim>\<open>data.action\<close> when the payload
  is missing, and \<^verbatim>\<open>audio_url.startsWith\<close> when the URL is truthy but not a string.
\<close>

definition handleContextUpdate :: "env \<Rightarrow> jsval \<Rightarrow> state \<Rightarrow> js_error option \<times> state" where
  "handleContextUpdate e data s =
     (if nullish data then (Some TypeError, s)
      else
       (let action = js_prop data ''action'' in
        case actionOf action of
          StartQuiz \<Rightarrow>
            (None,
             (setCurrentContext (\<lambda>prev. prev
                \<lparr>mode := Quiz,
                 quiz := js_prop data ''quiz'',
                 quizQuestions := js_or (js_prop data ''questions'') (JArr []),
                 currentQuestionIndex := JNum 0,
                 quizAnswers := Map.empty\<rparr>) s)
             \<lparr>displayContent :=
                JObj [(''type'', JStr ''quiz''), (''quiz'', js_prop data ''quiz''),
                      (''questions'', js_prop data ''questions''), (''currentIndex'', JNum 0)]\<rparr>)
        | ShowQuestion \<Rightarrow>
            (None,
             (setCurrentContext (\<lambda>prev. prev
                \<lparr>currentQuestionIndex := js_prop data ''questionIndex''\<rparr>) s)
             \<lparr>displayContent :=
                JObj (obj_set (js_spread (displayContent s)) ''currentIndex''
                        (js_prop data ''questionIndex''))\<rparr>)
        | PendingAnswer \<Rightarrow>
            (None,
             setCurrentContext (\<lambda>prev. prev
               \<lparr>pendingConfirmation :=
                  JObj [(''type'', JStr ''quiz_answer''),
                        (''questionIndex'', js_prop data ''questionIndex''),
                        (''answer'', js_prop data ''answer''),
                        (''answerText'', js_prop data ''answerText'')]\<rparr>) s)
        | AnswerConfirmed \<Rightarrow>
            (None,
             (setCurrentContext (\<lambda>prev. prev
                \<lparr>quizAnswers :=
                   (quizAnswers prev)
                     (js_toString (js_prop data ''questionIndex'') \<mapsto> js_prop data ''answer''),
                 pendingConfirmation := JNull\<rparr>) s)
             \<lparr>displayContent :=
                (if opt_get (displayContent s) ''type'' = JStr ''quiz''
                 then JObj (js_spread (displayContent s)) else displayContent s)\<rparr>)
        | AnswerCancelled \<Rightarrow>
            (None, setCurrentContext (\<lambda>prev. prev\<lparr>pendingConfirmation := JNull\<rparr>) s)
        | QuizCompleted \<Rightarrow>
            (None,
             setCurrentContext (\<lambda>prev. prev\<lparr>mode := Idle, pendingConfirmation := JNull\<rparr>)
               (s\<lparr>displayContent :=
                    JObj [(''type'', JStr ''quiz_result''), (''score'', js_prop data ''correct''),
                          (''total'', js_prop data ''total''), (''passed'', js_prop data ''passed''),
                          (''answers'', js_prop data ''answers'')]\<rparr>))
        | StartLesson \<Rightarrow>
            (let s1 =
                   (setCurrentContext (\<lambda>prev. prev
                      \<lparr>mode := Lesson, lesson := js_prop data ''lesson''\<rparr>) s)
                   \<lparr>displayContent :=
                      JObj [(''type'', JStr ''lesson''), (''lesson'', js_prop data ''lesson'')]\<rparr>;
                 audio_url = opt_get (js_prop data ''lesson'') ''audio_url''
             in if truthy (js_prop data ''has_audio'') \<and> truthy audio_url then
                  (case audio_url of
                     JStr u \<Rightarrow>
                       (let audioUrl = (if take 4 u = ''http'' then u else VITE_API_URL e @ u);
                            s2 = s1\<lparr>pendingLessonAudio := Some audioUrl,
                                    pendingLessonAudioRef := Some audioUrl\<rparr>
                        in (None,
                            if isListeningRef s2 then
                              s2\<lparr>isListeningRef := False, processorRef := False,
                                 mediaStreamRef := False, isListening := False\<rparr>
                            else s2))
                   | _ \<Rightarrow> (Some TypeError, s1))
                else (None, s1))
        | StartAssignment \<Rightarrow>
            (None,
             (setCurrentContext (\<lambda>prev. prev
                \<lparr>mode := Assignment, assignment := js_prop data ''assignment''\<rparr>) s)
             \<lparr>displayContent :=
                JObj [(''type'', JStr ''assignment''),
                      (''assignment'', js_prop data ''assignment'')]\<rparr>)
        | ConfirmSubmission \<Rightarrow>
            (None,
             setCurrentContext (\<lambda>prev. prev
               \<lparr>pendingConfirmation :=
                  JObj [(''type'', js_prop data ''submissionType''),
                        (''data'', js_prop data ''submissionData'')]\<rparr>) s)
        | SubmissionComplete \<Rightarrow>
            (None,
             (setCurrentContext (\<lambda>prev. prev\<lparr>mode := Idle, pendingConfirmation := JNull\<rparr>) s)
             \<lparr>displayContent :=
                JObj [(''type'', JStr ''submission_result''), (''success'', js_prop data ''success''),
                      (''message'', js_prop data ''message''), (''result'', js_prop data ''result'')]\<rparr>)
        | ShowCourses \<Rightarrow>
            (None,
             s\<lparr>displayContent :=
                 JObj [(''type'', JStr ''courses''), (''courses'', js_prop data ''courses''),
                       (''enrolled'', js_prop data ''enrolled'')]\<rparr>)
        | ShowProgress \<Rightarrow>
            (None,
             s\<lparr>displayContent :=
                 JObj [(''type'', JStr ''progress''), (''progress'', js_prop data ''progress'')]\<rparr>)
        | EnrollmentComplete \<Rightarrow>
            (None,
             s\<lparr>displayContent :=
                 JObj [(''type'', JStr ''enrollment_result''), (''success'', js_prop data ''success''),
                       (''course'', js_prop data ''course''), (''message'', js_prop data ''message'')]\<rparr>)
        | ShowAssignments \<Rightarrow>
            (None,
             s\<lparr>displayContent :=
                 JObj [(''type'', JStr ''assignments''),
                       (''assignments'', js_prop data ''assignments'')]\<rparr>)
        | ShowQuizzes \<Rightarrow>
            (None,
             s\<lparr>displayContent :=
                 JObj [(''type'', JStr ''quizzes''), (''quizzes'', js_prop data ''quizzes'')]\<rparr>)
        | Navigate \<Rightarrow>
            (None,
             if truthy (js_prop data ''url'')
             then s\<lparr>navigated := navigated s @ [js_prop data ''url'']\<rparr> else s)
        | ClearDisplay \<Rightarrow>
            (None,
             setCurrentContext (\<lambda>prev. prev\<lparr>mode := Idle\<rparr>) (s\<lparr>displayContent := JNull\<rparr>))
        | OtherAction \<Rightarrow> (None, s)))"

section \<open>Event router\<close>

text \<open>
  The rate-limit branch of \<^verbatim>\<open>response.done\<close> once the wait is known. The interval that
  counts \<open>rateLimitWait\<close> down runs on timer ticks of its own.
\<close>

definition rateLimited :: "int \<Rightarrow> state \<Rightarrow> state" where
  "rateLimited waitTime s =
     addMessage RSystem
       (JStr (glyphWait @ '' Rate limit reached. Please wait '' @ numberToString waitTime
              @ '' seconds before speaking again.''))
       (s\<lparr>rateLimitWait := waitTime\<rparr>)"

text \<open>
  The \<^verbatim>\<open>case\<close> labels of the \<^verbatim>\<open>switch\<close> in \<^verbatim>\<open>handleMessage\<close>, and the strict comparison of
  \<^verbatim>\<open>data.type\<close> with each label in turn; \<open>Unhandled\<close> is the \<^verbatim>\<open>default\<close> branch.
\<close>

datatype message_type =
    SessionCreated
  | SessionUpdated
  | SpeechStarted
  | SpeechStopped
  | TranscriptionCompleted
  | TranscriptionFailed
  | BufferCommitted
  | ItemCreated
  | ResponseCreated
  | TranscriptDelta
  | TranscriptDone
  | AudioDelta
  | AudioDone
  | FunctionCallDone
  | ResponseDone
  | ContextUpdate
  | DisplayUpdate
  | ErrorMessage
  | Unhandled

definition messageType :: "jsval \<Rightarrow> message_type" where
  "messageType ty =
     (if ty = JStr ''session.created'' then SessionCreated
      else if ty = JStr ''session.updated'' then SessionUpdated
      else if ty = JStr ''input_audio_buffer.speech_started'' then SpeechStarted
      else if ty = JStr ''input_audio_buffer.speech_stopped'' then SpeechStopped
      else if ty = JStr ''conversation.item.input_audio_transcription.completed'' then TranscriptionCompleted
      else if ty = JStr ''conversation.item.input_audio_transcription.failed'' then TranscriptionFailed
      else if ty = JStr ''input_audio_buffer.committed'' then BufferCommitted
      else if ty = JStr ''conversation.item.created'' then ItemCreated
      else if ty = JStr ''response.created'' then ResponseCreated
      else if ty = JStr ''response.audio_transcript.delta'' then TranscriptDelta
      else if ty = JStr ''response.audio_transcript.done'' then TranscriptDone
      else if ty = JStr ''response.audio.delta'' then AudioDelta
      else if ty = JStr ''response.audio.done'' then AudioDone
      else if ty = JStr ''response.function_call_arguments.done'' then FunctionCallDone
      else if ty = JStr ''response.done'' then ResponseDone
      else if ty = JStr ''context_update'' then ContextUpdate
      else if ty = JStr ''display_update'' then DisplayUpdate
      else if ty = JStr ''error'' then ErrorMessage
      else Unhandled)"

text \<open>
  The body of the \<^verbatim>\<open>try\<close> block of \<^verbatim>\<open>handleMessage\<close>, after \<^verbatim>\<open>JSON.parse\<close>: the \<^verbatim>\<open>switch\<close> on
  \<^verbatim>\<open>data.type\<close>. \<open>aiT\<close> is the value of \<^verbatim>\<open>aiTranscript\<close> that the callback closed over, \<open>now\<close> the
  clock of the audio context. The result pairs the exception thrown, if any, with the
  state reached by then.
\<close>

definition dispatch ::
  "env \<Rightarrow> string \<Rightarrow> real \<Rightarrow> jsval \<Rightarrow> state \<Rightarrow> js_error option \<times> state" where
  "dispatch e aiT now data s =
     (if nullish data then (Some TypeError, s)
      else
       (let ty = js_prop data ''type'' in
        case messageType ty of
          SessionCreated \<Rightarrow>
            (None,
             addMessage RSystem
               (JStr ''Voice assistant ready. Press Space or click the microphone to start speaking.'')
               (s\<lparr>isConnected := True, isConnecting := False\<rparr>))
        | SessionUpdated \<Rightarrow> (None, s)
        | SpeechStarted \<Rightarrow>
            (None, (interruptAudio s)\<lparr>currentTranscript := ''Listening...''\<rparr>)
        | SpeechStopped \<Rightarrow>
            (None, s\<lparr>currentTranscript := ''Processing...'', isProcessing := True\<rparr>)
        | TranscriptionCompleted \<Rightarrow>
            (None,
             if truthy (js_prop data ''transcript'')
             then addMessage RUser (js_prop data ''transcript'') (s\<lparr>currentTranscript := []\<rparr>)
             else s)
        | TranscriptionFailed \<Rightarrow>
            (None, s\<lparr>currentTranscript := [], isProcessing := False\<rparr>)
        | BufferCommitted \<Rightarrow> (None, s)
        | ItemCreated \<Rightarrow> (None, s)
        | ResponseCreated \<Rightarrow> (None, s\<lparr>isProcessing := True\<rparr>)
        | TranscriptDelta \<Rightarrow>
            (None,
             if truthy (js_prop data ''delta'')
             then s\<lparr>aiTranscript := aiTranscript s @ js_toString (js_prop data ''delta'')\<rparr>
             else s)
        | TranscriptDone \<Rightarrow>
            (None,
             (if aiT \<noteq> [] \<or> truthy (js_prop data ''transcript'')
              then (addMessage RAssistant (js_or (js_prop data ''transcript'') (JStr aiT)) s)
                   \<lparr>aiTranscript := []\<rparr>
              else s)
             \<lparr>isProcessing := False\<rparr>)
        | AudioDelta \<Rightarrow>
            (None,
             if truthy (js_prop data ''delta'')
             then processAudioQueue e now
                    (s\<lparr>audioQueueRef := audioQueueRef s @ [js_prop data ''delta'']\<rparr>)
             else s)
        | AudioDone \<Rightarrow> (None, resetAudioPlayback s)
        | FunctionCallDone \<Rightarrow> (None, s)
        | ResponseDone \<Rightarrow>
            (let s1 = s\<lparr>isProcessing := False\<rparr>;
                 response = js_prop data ''response'';
                 errorDetails = opt_get (opt_get response ''status_details'') ''error'';
                 r =
                   (if opt_get response ''status'' = JStr ''failed'' then
                      (if opt_get errorDetails ''code'' = JStr ''rate_limit_exceeded'' then
                         (case js_prop errorDetails ''message'' of
                            JStr t \<Rightarrow>
                              (None,
                               rateLimited (case retryAfter e t of Some n \<Rightarrow> n | None \<Rightarrow> 5) s1)
                          | JUndefined \<Rightarrow> (None, rateLimited 5 s1)
                          | JNull \<Rightarrow> (None, rateLimited 5 s1)
                          | _ \<Rightarrow> (Some TypeError, s1))
                       else if truthy (opt_get errorDetails ''message'')
                       then (None, addMessage RError (opt_get errorDetails ''message'') s1)
                       else (None, s1))
                    else (None, s1))
             in case r of
                  (Some err, s2) \<Rightarrow> (Some err, s2)
                | (None, s2) \<Rightarrow>
                    (None,
                     if truthyStr (pendingLessonAudioRef s2) then
                       addMessage RSystem
                         (JStr (glyphHeadphones @ '' Press Space to start the lesson audio.''))
                         (s2\<lparr>readyToPlayLessonAudio := True, aiPaused := True\<rparr>)
                     else s2))
        | ContextUpdate \<Rightarrow> handleContextUpdate e (js_prop data ''data'') s
        | DisplayUpdate \<Rightarrow>
            (None, s\<lparr>displayContent := js_prop data ''content''\<rparr>)
        | ErrorMessage \<Rightarrow>
            (None,
             (addMessage RError
                (js_or (opt_get (js_prop data ''error'') ''message'') (JStr ''An error occurred'')) s)
             \<lparr>isProcessing := False\<rparr>)
        | Unhandled \<Rightarrow> (None, s)))"

text \<open>
  \<^verbatim>\<open>handleMessage\<close>. The event carries the result of \<^verbatim>\<open>JSON.parse\<close>, \<open>None\<close> when it throws a
  SyntaxError. \<open>handleMessage_try\<close> is the \<^verbatim>\<open>try\<close> block; the \<^verbatim>\<open>catch\<close> block only writes to the
  console, so the handler returns with the state the \<^verbatim>\<open>try\<close> block reached.
\<close>

definition handleMessage_try ::
  "env \<Rightarrow> string \<Rightarrow> real \<Rightarrow> jsval option \<Rightarrow> state \<Rightarrow> js_error option \<times> state" where
  "handleMessage_try e aiT now parsed s =
     (case parsed of None \<Rightarrow> (Some SyntaxError, s) | Some data \<Rightarrow> dispatch e aiT now data s)"

definition handleMessage :: "env \<Rightarrow> string \<Rightarrow> real \<Rightarrow> jsval option \<Rightarrow> state \<Rightarrow> state" where
  "handleMessage e aiT now parsed s = snd (handleMessage_try e aiT now parsed s)"

text \<open>The message types that have a \<^verbatim>\<open>case\<close> of their own.\<close>

definition handledTypes :: "string list" where
  "handledTypes =
     [''session.created'', ''session.updated'', ''input_audio_buffer.speech_started'',
      ''input_audio_buffer.speech_stopped'',
      ''conversation.item.input_audio_transcription.completed'',
      ''conversation.item.input_audio_transcription.failed'',
      ''input_audio_buffer.committed'', ''conversation.item.created'', ''response.created'',
      ''response.audio_transcript.delta'', ''response.audio_transcript.done'',
      ''response.audio.delta'', ''response.audio.done'',
      ''response.function_call_arguments.done'', ''response.done'', ''context_update'',
      ''display_update'', ''error'']"

section \<open>Transport session\<close>

text \<open>
  \<^verbatim>\<open>connect\<close> opens a new socket unless the current one is open, and installs the
  \<^verbatim>\<open>handleMessage\<close> of the current render as its \<^verbatim>\<open>onmessage\<close>; the socket URL of the build is
  taken to be well-formed.
\<close>

definition connect :: "state \<Rightarrow> state" where
  "connect s =
     (if wsRef s = Some OPEN then s
      else s\<lparr>isConnecting := True, connectionError := None, wsRef := Some CONNECTING,
             onmessageTranscript := aiTranscript s\<rparr>)"

definition stopAudioCapture :: "state \<Rightarrow> state" where
  "stopAudioCapture s =
     s\<lparr>isListeningRef := False, processorRef := False, mediaStreamRef := False,
       isListening := False,
       sent := sent s @ (if wsRef s = Some OPEN then [AudioCommit] else [])\<rparr>"

definition ws_onerror :: "state \<Rightarrow> state" where
  "ws_onerror s =
     s\<lparr>connectionError := Some ''Connection error. Please check if the server is running.'',
       isConnecting := False\<rparr>"

definition ws_onclose :: "int \<Rightarrow> string \<Rightarrow> state \<Rightarrow> state" where
  "ws_onclose code reason s =
     (let s1 = stopAudioCapture (s\<lparr>isConnected := False, isListening := False\<rparr>)
      in if code \<noteq> 1000
         then s1\<lparr>connectionError :=
                   Some (''Connection closed: ''
                         @ (if reason \<noteq> [] then reason else ''Unknown reason''))\<rparr>
         else s1)"

section \<open>Audio capture pipeline\<close>

text \<open>
  \<^verbatim>\<open>startAudioCapture\<close>; \<open>granted\<close> tells whether \<^verbatim>\<open>getUserMedia\<close> resolves. A refusal is caught
  and becomes a connection error, the listening flags untouched.
\<close>

definition startAudioCapture :: "bool \<Rightarrow> state \<Rightarrow> state" where
  "startAudioCapture granted s =
     (if granted
      then s\<lparr>mediaStreamRef := True, processorRef := True, isListeningRef := True,
             isListening := True\<rparr>
      else s\<lparr>connectionError :=
                Some ''Microphone access denied. Please allow microphone permissions.''\<rparr>)"

text \<open>
  \<^verbatim>\<open>onaudioprocess\<close> for one frame at the rate of the audio context: dropped unless the page
  listens and the socket is open, otherwise resampled, encoded and sent at once.
\<close>

definition onaudioprocess :: "real \<Rightarrow> sample list \<Rightarrow> state \<Rightarrow> state" where
  "onaudioprocess sourceSampleRate inputData s =
     (if \<not> isListeningRef s \<or> wsRef s \<noteq> Some OPEN then s
      else s\<lparr>sent := sent s
                 @ [AudioAppend (floatTo16BitPCM (resample sourceSampleRate inputData))]\<rparr>)"

section \<open>Lesson-audio handoff\<close>

text \<open>
  \<open>lessonAudioRef\<close> holds the source of the \<^verbatim>\<open>Audio\<close> element that \<^verbatim>\<open>play()\<close> was called on, until
  the element ends, fails or is stopped.
\<close>

definition stopLessonAudio :: "state \<Rightarrow> state" where
  "stopLessonAudio s = s\<lparr>lessonAudioRef := None, lessonAudioPlaying := False\<rparr>"

definition playPendingLessonAudio :: "state \<Rightarrow> state" where
  "playPendingLessonAudio s =
     (if \<not> truthyStr (pendingLessonAudio s) then s
      else
        (addMessage RSystem (JStr (glyphHeadphones @ '' Playing lesson audio...''))
           (s\<lparr>readyToPlayLessonAudio := False, lessonAudioPlaying := True\<rparr>))
        \<lparr>lessonAudioRef := pendingLessonAudio s\<rparr>)"

definition audio_onended :: "state \<Rightarrow> state" where
  "audio_onended s =
     addMessage RSystem
       (JStr (glyphCheck @ '' Lesson audio finished. Press Space to resume voice interaction.''))
       (s\<lparr>lessonAudioPlaying := False, aiPaused := False, lessonAudioRef := None,
          pendingLessonAudio := None, pendingLessonAudioRef := None\<rparr>)"

definition audio_onerror :: "state \<Rightarrow> state" where
  "audio_onerror s =
     addMessage RError (JStr ''Failed to play lesson audio.'')
       (s\<lparr>lessonAudioPlaying := False, aiPaused := False, lessonAudioRef := None,
          pendingLessonAudio := None, pendingLessonAudioRef := None\<rparr>)"

text \<open>The rejection handler of \<^verbatim>\<open>audio.play()\<close>.\<close>

definition audio_play_rejected :: "state \<Rightarrow> state" where
  "audio_play_rejected s =
     s\<lparr>lessonAudioPlaying := False, aiPaused := False, lessonAudioRef := None,
       pendingLessonAudio := None, pendingLessonAudioRef := None\<rparr>"

definition resumeAI :: "state \<Rightarrow> state" where
  "resumeAI s =
     addMessage RSystem (JStr (glyphMic @ '' Voice assistant resumed. You can speak now.''))
       ((stopLessonAudio s)
        \<lparr>aiPaused := False, pendingLessonAudio := None, pendingLessonAudioRef := None,
         readyToPlayLessonAudio := False\<rparr>)"

text \<open>
  \<^verbatim>\<open>toggleListening\<close>. The flags it tests are those of the render that created the callback,
  which is the state at the time of the key press; the request for the microphone is
  taken to be answered before the next event is handled.
\<close>

definition toggleListening :: "bool \<Rightarrow> state \<Rightarrow> state" where
  "toggleListening granted s =
     (if readyToPlayLessonAudio s \<and> truthyStr (pendingLessonAudio s)
      then playPendingLessonAudio s
      else if aiPaused s then
        (let s1 = resumeAI s;
             s2 = (if \<not> isConnected s then connect s1 else s1)
         in startAudioCapture granted s2)
      else
        (let s1 = (if lessonAudioPlaying s then stopLessonAudio s else s)
         in if isListening s then stopAudioCapture s1
            else startAudioCapture granted (if \<not> isConnected s then connect s1 else s1)))"

section \<open>Rendering and unmounting\<close>

text \<open>
  \<^verbatim>\<open>renderQuizDisplay\<close>, which the page calls on every render, up to its first indexed read.
  It returns \<^verbatim>\<open>null\<close> unless the display holds a quiz; otherwise it takes \<^verbatim>\<open>questions\<close> from
  the display and reads \<^verbatim>\<open>questions[currentIndex]\<close>, which throws when \<^verbatim>\<open>questions\<close> is
  \<^verbatim>\<open>undefined\<close> or \<^verbatim>\<open>null\<close>. The markup built after that read is not modelled: \<open>None\<close> says
  that these statements did not throw.
\<close>

definition renderQuizDisplay :: "state \<Rightarrow> js_error option" where
  "renderQuizDisplay s =
     (if \<not> truthy (displayContent s) then None
      else if js_prop (displayContent s) ''type'' \<noteq> JStr ''quiz'' then None
      else if nullish (js_prop (displayContent s) ''questions'') then Some TypeError
      else None)"

text \<open>
  The cleanup of the mount effect, run when the page is unmounted: a socket still held is
  closed with code 1000 and the reason \<^verbatim>\<open>Component unmounted\<close>, and the ref is emptied. The
  result pairs the arguments of that \<^verbatim>\<open>close\<close> call, if it was made, with the state. (The
  cleanup also closes the audio context, which the state does not hold.)
\<close>

definition unmountCleanup :: "state \<Rightarrow> (int \<times> string) option \<times> state" where
  "unmountCleanup s =
     (if wsRef s \<noteq> None then (Some (1000, ''Component unmounted''), s\<lparr>wsRef := None\<rparr>)
      else (None, s))"

text \<open>
  A render of the page after a handler has run. No error boundary is declared anywhere
  under the sources, so an exception thrown while rendering unmounts the page, and the
  cleanup above runs; a render that does not throw leaves the state alone.
\<close>

definition renderPage :: "state \<Rightarrow> (int \<times> string) option \<times> state" where
  "renderPage s =
     (case renderQuizDisplay s of
        None \<Rightarrow> (None, s)
      | Some err \<Rightarrow> unmountCleanup s)"

section \<open>Events of a session\<close>

datatype event =
    Mount
  | Reconnect
  | SocketOpen
  | SocketMessage real "jsval option"
  | SocketError
  | SocketClose int string
  | Toggle bool
  | AutoStart bool
  | AudioProcess real "sample list"
  | SourceEnded nat
  | LessonAudioEnded
  | LessonAudioError
  | LessonAudioPlayRejected

text \<open>
  One event, run to completion. The socket events move the ready state of the socket;
  the events of the \<^verbatim>\<open>Audio\<close> element come only while an element exists. \<open>Mount\<close> is the
  connection made when the page is mounted, \<open>Reconnect\<close> the retry link, \<open>AutoStart\<close> the
  capture started for a blind user once the socket is open. Unmounting ends the session
  and is not an event.
\<close>

fun step :: "env \<Rightarrow> state \<Rightarrow> event \<Rightarrow> state" where
  "step e s Mount = connect s"
| "step e s Reconnect = connect s"
| "step e s SocketOpen = (if wsRef s = Some CONNECTING then s\<lparr>wsRef := Some OPEN\<rparr> else s)"
| "step e s (SocketMessage now parsed) =
     (if wsRef s = Some OPEN then handleMessage e (onmessageTranscript s) now parsed s else s)"
| "step e s SocketError = (if wsRef s = None then s else ws_onerror s)"
| "step e s (SocketClose code reason) =
     (if wsRef s = None then s else ws_onclose code reason (s\<lparr>wsRef := Some CLOSED\<rparr>))"
| "step e s (Toggle granted) = toggleListening granted s"
| "step e s (AutoStart granted) =
     (if wsRef s = Some OPEN then startAudioCapture granted s else s)"
| "step e s (AudioProcess rate frame) =
     (if processorRef s then onaudioprocess rate frame s else s)"
| "step e s (SourceEnded i) = source_onended i s"
| "step e s LessonAudioEnded = (if lessonAudioRef s = None then s else audio_onended s)"
| "step e s LessonAudioError = (if lessonAudioRef s = None then s else audio_onerror s)"
| "step e s LessonAudioPlayRejected =
     (if lessonAudioRef s = None then s else audio_play_rejected s)"

definition run :: "env \<Rightarrow> state \<Rightarrow> event list \<Rightarrow> state" where
  "run e s evs = foldl (step e) s evs"

section \<open>Vocabulary of the properties\<close>

text \<open>What one sample becomes after \<^verbatim>\<open>floatTo16BitPCM\<close> and the decoding loop.\<close>

definition decodeOne :: "sample \<Rightarrow> real" where
  "decodeOne x = real_of_int (sint (toInt16 (scaleSample (clampSample x)))) / 32768"

text \<open>The time at which a scheduled source finishes playing.\<close>

definition finish :: "audio_source \<Rightarrow> real" where
  "finish src = src_start src + duration src"

text \<open>A sequence of parsed inbound messages, each with the clock reading at its arrival.\<close>

definition deliverAll :: "env \<Rightarrow> string \<Rightarrow> state \<Rightarrow> (real \<times> jsval) list \<Rightarrow> state" where
  "deliverAll e aiT s ms = foldl (\<lambda>s' (now, m). handleMessage e aiT now (Some m) s') s ms"

text \<open>
  \<open>scheduled s0 s new\<close>: since \<open>s0\<close> the sources \<open>new\<close> were started and added to the
  active set and none was stopped; they are back to back, none before the cursor of
  \<open>s0\<close>, and the cursor of \<open>s\<close> is where the last of them finishes.
\<close>

definition scheduled :: "state \<Rightarrow> state \<Rightarrow> audio_source list \<Rightarrow> bool" where
  "scheduled s0 s new \<longleftrightarrow>
     started s = started s0 @ new \<and>
     activeAudioSourcesRef s = activeAudioSourcesRef s0 @ new \<and>
     stopped s = stopped s0 \<and>
     successively (\<lambda>a b. finish a \<le> src_start b) new \<and>
     (\<forall>x \<in> set new. audioPlaybackTimeRef s0 \<le> src_start x) \<and>
     audioPlaybackTimeRef s = (if new = [] then audioPlaybackTimeRef s0 else finish (last new))"

text \<open>
  A build for the examples: \<^verbatim>\<open>atob\<close> is given on the two chunks used (four and two zero
  bytes), and no rate-limit message matches.
\<close>

definition exampleEnv :: env where
  "exampleEnv =
     \<lparr>VITE_API_URL = ''http://localhost:8000'',
      atob = (\<lambda>t. if t = ''AAAAAA=='' then Some [0, 0, 0, 0]
                   else if t = ''AAA='' then Some [0, 0] else None),
      retryAfter = (\<lambda>t. None)\<rparr>"

definition audioDelta :: "string \<Rightarrow> jsval" where
  "audioDelta b64 = JObj [(''type'', JStr ''response.audio.delta''), (''delta'', JStr b64)]"

definition exampleChunks :: "(real \<times> jsval) list" where
  "exampleChunks = [(1, audioDelta ''AAAAAA==''), (1, audioDelta ''AAA='')]"

text \<open>
  \<open>keepsSession s s'\<close>: from \<open>s\<close> to \<open>s'\<close> the socket, the installed message handler and the
  narration element are as they were, the connection is not dropped, no capture is
  started, the two listening flags stay in step, and a pending narration stays pending.
\<close>

definition keepsSession :: "state \<Rightarrow> state \<Rightarrow> bool" where
  "keepsSession s s' \<longleftrightarrow>
     wsRef s' = wsRef s \<and>
     onmessageTranscript s' = onmessageTranscript s \<and>
     (isConnected s \<longrightarrow> isConnected s') \<and>
     lessonAudioRef s' = lessonAudioRef s \<and>
     lessonAudioPlaying s' = lessonAudioPlaying s \<and>
     (isListening s' \<longrightarrow> isListening s) \<and>
     (isListeningRef s' \<longrightarrow> isListeningRef s) \<and>
     (isListening s = isListeningRef s \<longrightarrow> isListening s' = isListeningRef s') \<and>
     (truthyStr (pendingLessonAudio s) \<longrightarrow> truthyStr (pendingLessonAudio s')) \<and>
     (truthyStr (pendingLessonAudioRef s) \<longrightarrow> truthyStr (pendingLessonAudioRef s'))"

text \<open>Example messages and runs of a session.\<close>

definition sessionCreatedMsg :: jsval where
  "sessionCreatedMsg = JObj [(''type'', JStr ''session.created'')]"

definition startLessonMsg :: jsval where
  "startLessonMsg =
     JObj [(''type'', JStr ''context_update''),
           (''data'',
            JObj [(''action'', JStr ''start_lesson''),
                  (''lesson'',
                   JObj [(''id'', JNum 3), (''title'', JStr ''Photosynthesis''),
                         (''audio_url'', JStr ''/media/lesson3.mp3'')]),
                  (''has_audio'', JBool True)])]"

definition startLessonNoUrlMsg :: jsval where
  "startLessonNoUrlMsg =
     JObj [(''type'', JStr ''context_update''),
           (''data'',
            JObj [(''action'', JStr ''start_lesson''),
                  (''lesson'', JObj [(''id'', JNum 3), (''title'', JStr ''Photosynthesis'')]),
                  (''has_audio'', JBool True)])]"

definition responseDoneMsg :: jsval where
  "responseDoneMsg =
     JObj [(''type'', JStr ''response.done''),
           (''response'', JObj [(''status'', JStr ''completed'')])]"

text \<open>The page mounts, the socket opens and the session is created.\<close>

definition sessionUp :: "event list" where
  "sessionUp = [Mount, SocketOpen, SocketMessage 0 (Some sessionCreatedMsg)]"

text \<open>
  A lesson with narration starts; the user turns the microphone on while the assistant
  is still introducing the lesson; the turn completes; the user presses Space again.
\<close>

definition handoffRace :: "event list" where
  "handoffRace =
     sessionUp @
     [SocketMessage 1 (Some startLessonMsg), Toggle True,
      SocketMessage 2 (Some responseDoneMsg), Toggle True]"

text \<open>A lesson announced with \<^verbatim>\<open>has_audio\<close> but without an audio URL, and the turn complete.\<close>

definition handoffNoUrl :: "event list" where
  "handoffNoUrl =
     sessionUp @
     [SocketMessage 1 (Some startLessonNoUrlMsg), SocketMessage 2 (Some responseDoneMsg)]"

text \<open>A lesson with narration, the turn complete, Space: the narration plays.\<close>

definition narrationPlaying :: "event list" where
  "narrationPlaying =
     sessionUp @
     [SocketMessage 1 (Some startLessonMsg), SocketMessage 2 (Some responseDoneMsg), Toggle True]"

text \<open>
  A quiz announced without its list of questions, arriving on a session that is up.
\<close>

definition startQuizNoQuestionsMsg :: jsval where
  "startQuizNoQuestionsMsg =
     JObj [(''type'', JStr ''context_update''),
           (''data'',
            JObj [(''action'', JStr ''start_quiz''),
                  (''quiz'', JObj [(''id'', JNum 7), (''title'', JStr ''Cells'')])])]"

definition quizNoQuestions :: "event list" where
  "quizNoQuestions = sessionUp @ [SocketMessage 1 (Some startQuizNoQuestionsMsg)]"

section \<open>Classification of messages and actions\<close>

lemma messageType_labels [simp]:
  "messageType (JStr ''session.created'') = SessionCreated"
  "messageType (JStr ''session.updated'') = SessionUpdated"
  "messageType (JStr ''input_audio_buffer.speech_started'') = SpeechStarted"
  "messageType (JStr ''input_audio_buffer.speech_stopped'') = SpeechStopped"
  "messageType (JStr ''conversation.item.input_audio_transcription.completed'') = TranscriptionCompleted"
  "messageType (JStr ''conversation.item.input_audio_transcription.failed'') = TranscriptionFailed"
  "messageType (JStr ''input_audio_buffer.committed'') = BufferCommitted"
  "messageType (JStr ''conversation.item.created'') = ItemCreated"
  "messageType (JStr ''response.created'') = ResponseCreated"
  "messageType (JStr ''response.audio_transcript.delta'') = TranscriptDelta"
  "messageType (JStr ''response.audio_transcript.done'') = TranscriptDone"
  "messageType (JStr ''response.audio.delta'') = AudioDelta"
  "messageType (JStr ''response.audio.done'') = AudioDone"
  "messageType (JStr ''response.function_call_arguments.done'') = FunctionCallDone"
  "messageType (JStr ''response.done'') = ResponseDone"
  "messageType (JStr ''context_update'') = ContextUpdate"
  "messageType (JStr ''display_update'') = DisplayUpdate"
  "messageType (JStr ''error'') = ErrorMessage"
  by (simp_all add: messageType_def)

lemma actionOf_labels [simp]:
  "actionOf (JStr ''start_quiz'') = StartQuiz"
  "actionOf (JStr ''show_question'') = ShowQuestion"
  "actionOf (JStr ''pending_answer'') = PendingAnswer"
  "actionOf (JStr ''answer_confirmed'') = AnswerConfirmed"
  "actionOf (JStr ''answer_cancelled'') = AnswerCancelled"
  "actionOf (JStr ''quiz_completed'') = QuizCompleted"
  "actionOf (JStr ''start_lesson'') = StartLesson"
  "actionOf (JStr ''start_assignment'') = StartAssignment"
  "actionOf (JStr ''confirm_submission'') = ConfirmSubmission"
  "actionOf (JStr ''submission_complete'') = SubmissionComplete"
  "actionOf (JStr ''show_courses'') = ShowCourses"
  "actionOf (JStr ''show_progress'') = ShowProgress"
  "actionOf (JStr ''enrollment_complete'') = EnrollmentComplete"
  "actionOf (JStr ''show_assignments'') = ShowAssignments"
  "actionOf (JStr ''show_quizzes'') = ShowQuizzes"
  "actionOf (JStr ''navigate'') = Navigate"
  "actionOf (JStr ''clear_display'') = ClearDisplay"
  by (simp_all add: actionOf_def)

lemma messageType_unhandled:
  assumes "\<forall>t \<in> set handledTypes. ty \<noteq> JStr t"
  shows "messageType ty = Unhandled"
  using assms by (simp add: messageType_def handledTypes_def)

section \<open>PCM16 round trip\<close>

lemma getInt16_setInt16: "getInt16_le (ucast w) (ucast (drop_bit 8 w)) = w"
  unfolding getInt16_le_def
  by (rule bit_word_eqI) (auto simp: bit_simps)

lemma roundtrip_map: "pcm16ToFloat32 (floatTo16BitPCM xs) = Inr (map decodeOne xs)"
  by (induction xs) (simp_all add: setInt16_le_def getInt16_setInt16 decodeOne_def)

lemma sint_toInt16:
  assumes "- 32768 \<le> v" "v \<le> 32767"
  shows "sint (toInt16 (Sample v)) = js_trunc v"
proof -
  have "- 32768 \<le> js_trunc v" "js_trunc v < 32768"
    using assms unfolding js_trunc_def by (auto simp: le_floor_iff floor_less_iff le_ceiling_iff ceiling_less_iff) 
  then show ?thesis
    by (simp add: sint_sbintrunc' signed_take_bit_int_eq_self)
qed


lemma decodeOne_clamped:
  fixes v c y :: real
  assumes c: "c = max (- 1) (min 1 v)" and y: "y = (if c < 0 then c * 32768 else c * 32767)"
  shows "decodeOne (Sample v) = real_of_int (js_trunc y) / 32768"
proof -
  have cb: "- 1 \<le> c" "c \<le> 1" by (simp_all add: c)
  have "- 32768 \<le> y" "y \<le> 32767" using cb by (auto simp: y)
  then have "sint (toInt16 (Sample y)) = js_trunc y" by (rule sint_toInt16)
  moreover have "scaleSample (clampSample (Sample v)) = Sample y"
    by (simp only: clampSample.simps scaleSample.simps c y)
  ultimately show ?thesis by (simp only: decodeOne_def)
qed

lemma decodeOne_neg:
  fixes v c :: real
  assumes c: "c = max (- 1) (min 1 v)" and neg: "c < 0"
  shows "0 \<le> decodeOne (Sample v) - c" and "decodeOne (Sample v) - c < 1 / 32768"
proof -
  have tr: "js_trunc (c * 32768) = \<lceil>c * 32768\<rceil>"
    using neg by (simp add: js_trunc_def mult_less_0_iff)
  have d: "decodeOne (Sample v) = real_of_int \<lceil>c * 32768\<rceil> / 32768"
    using decodeOne_clamped [OF c, of "c * 32768"] neg tr by simp
  have "c * 32768 \<le> real_of_int \<lceil>c * 32768\<rceil>" "real_of_int \<lceil>c * 32768\<rceil> < c * 32768 + 1"
    by linarith+
  then show "0 \<le> decodeOne (Sample v) - c" and "decodeOne (Sample v) - c < 1 / 32768"
    unfolding d by (simp_all add: field_simps)
qed

lemma decodeOne_nonneg:
  fixes v c :: real
  assumes c: "c = max (- 1) (min 1 v)" and nn: "0 \<le> c"
  shows "c / 32768 \<le> c - decodeOne (Sample v)" and "c - decodeOne (Sample v) < (c + 1) / 32768"
proof -
  have tr: "js_trunc (c * 32767) = \<lfloor>c * 32767\<rfloor>"
    using nn by (simp add: js_trunc_def)
  have d: "decodeOne (Sample v) = real_of_int \<lfloor>c * 32767\<rfloor> / 32768"
    using decodeOne_clamped [OF c, of "c * 32767"] nn tr by simp
  have "real_of_int \<lfloor>c * 32767\<rfloor> \<le> c * 32767" "c * 32767 < real_of_int \<lfloor>c * 32767\<rfloor> + 1"
    by linarith+
  then show "c / 32768 \<le> c - decodeOne (Sample v)" and "c - decodeOne (Sample v) < (c + 1) / 32768"
    unfolding d by (simp_all add: field_simps)
qed

lemma decodeOne_zero: "decodeOne (Sample 0) = 0"
  by (simp add: decodeOne_def js_trunc_def)

lemma decodeOne_one: "decodeOne (Sample 1) = 32767 / 32768"
  by (simp add: decodeOne_def js_trunc_def)

lemma decodeOne_minus_one: "decodeOne (Sample (- 1)) = - 1"
  by (simp add: decodeOne_def js_trunc_def)

lemma decodeOne_above: "1 \<le> v \<Longrightarrow> decodeOne (Sample v) = 32767 / 32768"
  by (simp add: decodeOne_def js_trunc_def min_def max_def)

lemma decodeOne_below: "v \<le> - 1 \<Longrightarrow> decodeOne (Sample v) = - 1"
  by (simp add: decodeOne_def js_trunc_def min_def max_def)

text \<open>
  C6, as stated, at the sample \<open>32769/65536\<close> (a float32): it is encoded as 16383 and
  decoded as \<open>16383/32768\<close>, one and a half quantization steps below the original.
\<close>

theorem pcm_roundtrip_counterexample:
  "pcm16ToFloat32 (floatTo16BitPCM [Sample (32769 / 65536)]) = Inr [16383 / 32768]
   \<and> \<bar>16383 / 32768 - 32769 / 65536\<bar> > (1 / 32768 :: real)"
  by (simp add: setInt16_le_def getInt16_le_def js_trunc_def)

text \<open>
  C6, amended. For every array of finite samples, \<^verbatim>\<open>floatTo16BitPCM\<close> followed by the inbound
  decoding returns as many samples, each within less than two quantization steps
  (\<open>2/32768\<close>) of the original clamped to \<open>[-1, 1]\<close>, and within less than one step when the
  original is negative. A zero sample comes back as 0, a sample of \<open>+1.0\<close> or above as
  \<open>32767/32768\<close> (one step below 1), and a sample of \<open>-1.0\<close> or below as \<open>-1\<close>.
\<close>

theorem pcm_roundtrip:
  "\<exists>ys. pcm16ToFloat32 (floatTo16BitPCM (map Sample xs)) = Inr ys \<and> length ys = length xs \<and>
     (\<forall>i<length xs.
        \<bar>ys ! i - max (- 1) (min 1 (xs ! i))\<bar> < 2 / 32768 \<and>
        (xs ! i < 0 \<longrightarrow> \<bar>ys ! i - max (- 1) (min 1 (xs ! i))\<bar> < 1 / 32768) \<and>
        (xs ! i = 0 \<longrightarrow> ys ! i = 0) \<and>
        (1 \<le> xs ! i \<longrightarrow> ys ! i = 32767 / 32768) \<and>
        (xs ! i \<le> - 1 \<longrightarrow> ys ! i = - 1))"
proof -
  have b: "\<bar>decodeOne (Sample v) - max (- 1) (min 1 v)\<bar> < 2 / 32768" for v
  proof -
    define c where "c = max (- 1) (min 1 v)"
    have c1: "c \<le> 1" by (simp add: c_def)
    show ?thesis
    proof (cases "c < 0")
      case True
      from decodeOne_neg [OF c_def True] show ?thesis unfolding c_def [symmetric] by linarith
    next
      case False
      then have nn: "0 \<le> c" by simp
      from decodeOne_nonneg [OF c_def nn] c1 nn show ?thesis
        unfolding c_def [symmetric] by (simp add: field_simps abs_if)
    qed
  qed
  have n: "\<bar>decodeOne (Sample v) - max (- 1) (min 1 v)\<bar> < 1 / 32768" if "v < 0" for v
  proof -
    define c where "c = max (- 1) (min 1 v)"
    from that have neg: "c < 0" by (simp add: c_def)
    from decodeOne_neg [OF c_def neg] show ?thesis unfolding c_def [symmetric] by linarith
  qed
  have "pcm16ToFloat32 (floatTo16BitPCM (map Sample xs)) = Inr (map decodeOne (map Sample xs))"
    by (rule roundtrip_map)
  moreover have "length (map decodeOne (map Sample xs)) = length xs" by simp
  moreover have "\<forall>i<length xs.
        \<bar>map decodeOne (map Sample xs) ! i - max (- 1) (min 1 (xs ! i))\<bar> < 2 / 32768 \<and>
        (xs ! i < 0 \<longrightarrow> \<bar>map decodeOne (map Sample xs) ! i - max (- 1) (min 1 (xs ! i))\<bar> < 1 / 32768) \<and>
        (xs ! i = 0 \<longrightarrow> map decodeOne (map Sample xs) ! i = 0) \<and>
        (1 \<le> xs ! i \<longrightarrow> map decodeOne (map Sample xs) ! i = 32767 / 32768) \<and>
        (xs ! i \<le> - 1 \<longrightarrow> map decodeOne (map Sample xs) ! i = - 1)"
    using b n decodeOne_zero decodeOne_above decodeOne_below by simp
  ultimately show ?thesis by blast
qed

theorem pcm_roundtrip_witness:
  "\<exists>ys. pcm16ToFloat32 (floatTo16BitPCM (map Sample [0, 1, - 1, 9 / 10, - 3, - 1 / 2])) = Inr ys \<and>
     length ys = 6 \<and> ys ! 0 = 0 \<and> ys ! 1 = 32767 / 32768 \<and> ys ! 2 = - 1 \<and>
     \<bar>ys ! 3 - 9 / 10\<bar> < 2 / 32768 \<and> ys ! 4 = - 1 \<and> \<bar>ys ! 5 - (- 1 / 2)\<bar> < 1 / 32768"
proof -
  define xs :: "real list" where "xs = [0, 1, - 1, 9 / 10, - 3, - 1 / 2]"
  have n: "xs ! 0 = 0" "xs ! Suc 0 = 1" "xs ! 2 = - 1" "xs ! 3 = 9 / 10" "xs ! 4 = - 3"
      "xs ! 5 = - 1 / 2" "length xs = 6"
    by (simp_all add: xs_def)
  from pcm_roundtrip [of xs]
  obtain ys where ys: "pcm16ToFloat32 (floatTo16BitPCM (map Sample xs)) = Inr ys"
    and len: "length ys = length xs"
    and all: "\<forall>i<length xs.
        \<bar>ys ! i - max (- 1) (min 1 (xs ! i))\<bar> < 2 / 32768 \<and>
        (xs ! i < 0 \<longrightarrow> \<bar>ys ! i - max (- 1) (min 1 (xs ! i))\<bar> < 1 / 32768) \<and>
        (xs ! i = 0 \<longrightarrow> ys ! i = 0) \<and>
        (1 \<le> xs ! i \<longrightarrow> ys ! i = 32767 / 32768) \<and>
        (xs ! i \<le> - 1 \<longrightarrow> ys ! i = - 1)"
    by blast
  from all [rule_format, of 0] have y0: "ys ! 0 = 0" by (simp add: n)
  from all [rule_format, of 1] have y1: "ys ! 1 = 32767 / 32768" by (simp add: n)
  from all [rule_format, of 2] have y2: "ys ! 2 = - 1" by (simp add: n)
  from all [rule_format, of 3] have y3: "\<bar>ys ! 3 - 9 / 10\<bar> < 2 / 32768" by (simp add: n)
  from all [rule_format, of 4] have y4: "ys ! 4 = - 1" by (simp add: n)
  from all [rule_format, of 5] have y5: "\<bar>ys ! 5 - (- 1 / 2)\<bar> < 1 / 32768" by (simp add: n)
  from len n(7) have l6: "length ys = 6" by (simp only:)
  show ?thesis
    unfolding xs_def [symmetric]
    by (intro exI [of _ ys] conjI) (fact ys l6 y0 y1 y2 y3 y4 y5)+
qed

section \<open>Resampling\<close>

lemma js_round_half: "js_round (real n / 2) = int ((n + 1) div 2)"
proof -
  have "real n / 2 + 1 / 2 = real_of_int (int (n + 1)) / real_of_int 2" by simp
  then have "js_round (real n / 2) = \<lfloor>real_of_int (int (n + 1)) / real_of_int 2\<rfloor>"
    by (simp only: js_round_def)
  also have "\<dots> = int (n + 1) div 2" by (rule floor_divide_of_int_eq)
  finally show ?thesis by (simp add: zdiv_int)
qed

lemma js_round_nat: "js_round (real n) = int n"
  by (simp add: js_round_def)

lemma resampleIndex_in_bounds:
  assumes r: "1 \<le> ratio" and i: "int i < resampleLength ratio len"
  shows "0 \<le> resampleIndex ratio i" and "resampleIndex ratio i < int len"
proof -
  have pos: "0 < ratio" using r by simp
  show "0 \<le> resampleIndex ratio i"
    using pos by (simp add: resampleIndex_def js_round_def)
  have "int i + 1 \<le> \<lfloor>real len / ratio + 1 / 2\<rfloor>"
    using i by (simp add: resampleLength_def js_round_def)
  then have "real_of_int (int i + 1) \<le> real len / ratio + 1 / 2"
    by (simp only: le_floor_iff)
  then have "real i + 1 / 2 \<le> real len / ratio" by simp
  then have "(real i + 1 / 2) * ratio \<le> real len"
    using pos by (simp add: pos_le_divide_eq)
  then have le: "real i * ratio + ratio / 2 \<le> real len" by (simp add: algebra_simps)
  show "resampleIndex ratio i < int len"
  proof (cases "ratio = 1")
    case True
    with le have "real i + 1 / 2 \<le> real len" by simp
    then have "i < len" by linarith
    then have "real i + 1 \<le> real len" by linarith
    then have "real i + 1 / 2 < real len" by simp
    then show ?thesis using True by (simp add: resampleIndex_def js_round_def floor_less_iff)
  next
    case False
    with r have "1 < ratio" by simp
    with le have "real i * ratio + 1 / 2 < real len" by simp
    then show ?thesis by (simp add: resampleIndex_def js_round_def floor_less_iff)
  qed
qed

text \<open>
  The bound does not rest on exact arithmetic. Let the quotient and the product be
  computed with an error of at most \<open>\<delta>\<close>, as double arithmetic does, with
  \<open>\<delta> \<le> 1 / (32 * L)\<close>; then the rounded index is still below \<open>L\<close>. For a frame of 4096
  samples that allows an error of \<open>1/131072\<close>, far above the rounding error of a double
  operation on values of this size.
\<close>

lemma resampleIndex_in_bounds_rounded:
  fixes r q p \<delta> :: real and len i :: nat
  assumes r: "1 \<le> r" and len: "0 < len"
    and \<delta>: "0 \<le> \<delta>" "\<delta> * (32 * real len) \<le> 1"
    and q: "\<bar>q - real len / r\<bar> \<le> \<delta>"
    and p: "\<bar>p - real i * r\<bar> \<le> \<delta>"
    and i: "int i < js_round q"
  shows "js_round p < int len"
proof -
  have pos: "0 < r" using r by simp
  have L1: "1 \<le> real len" using len by simp
  have "\<delta> * 32 * 1 \<le> \<delta> * 32 * real len"
    using \<delta>(1) L1 by (intro mult_left_mono) simp_all
  with \<delta>(2) have d32: "\<delta> \<le> 1 / 32" by simp
  have "int i + 1 \<le> \<lfloor>q + 1 / 2\<rfloor>" using i by (simp add: js_round_def)
  then have "real_of_int (int i + 1) \<le> q + 1 / 2" by (simp only: le_floor_iff)
  then have A: "real i + 1 / 2 \<le> real len / r + \<delta>" using q by simp
  have "real len * 1 \<le> real len * r" using r by (intro mult_left_mono) simp_all
  then have "real len / r \<le> real len" using pos by (simp add: pos_divide_le_eq)
  with A d32 have "real i + 1 / 2 \<le> real len + 1 / 32" by simp
  then have "i < len" by linarith
  then have B: "real i \<le> real len - 1" by linarith
  have P: "p \<le> real i * r + \<delta>" using p by simp
  have goal: "p + 1 / 2 < real len"
  proof (cases "(real len - 1) * (r - 1) < 1 / 4")
    case True
    have "real i * r \<le> (real len - 1) * r" using B pos by (intro mult_right_mono) simp_all
    also have "\<dots> = (real len - 1) + (real len - 1) * (r - 1)" by (simp add: algebra_simps)
    finally have "real i * r < real len - 1 + 1 / 4" using True by simp
    with P d32 show ?thesis by simp
  next
    case False
    then have ab: "1 / 4 \<le> (real len - 1) * (r - 1)" by simp
    have b0: "0 < r - 1"
    proof (rule ccontr)
      assume "\<not> 0 < r - 1"
      with r have "r - 1 = 0" by simp
      with ab show False by simp
    qed
    have a0: "0 < real len - 1"
    proof (rule ccontr)
      assume "\<not> 0 < real len - 1"
      with L1 have "real len - 1 = 0" by simp
      with ab show False by simp
    qed
    have "(real i + 1 / 2) * r \<le> (real len / r + \<delta>) * r"
      using A pos by (intro mult_right_mono) simp_all
    also have "\<dots> = real len + \<delta> * r" using pos by (simp add: algebra_simps)
    finally have ir: "real i * r \<le> real len + \<delta> * r - r / 2" by (simp add: algebra_simps)
    have "8 * \<delta> * (4 * (real len - 1)) \<le> 8 * \<delta> * (4 * real len)"
      using \<delta>(1) by (intro mult_left_mono) simp_all
    also have "\<dots> = \<delta> * (32 * real len)" by simp
    also have "\<dots> \<le> 1" by (rule \<delta>(2))
    also have "\<dots> \<le> (r - 1) * (4 * (real len - 1))" using ab by (simp add: algebra_simps)
    finally have "8 * \<delta> * (4 * (real len - 1)) \<le> (r - 1) * (4 * (real len - 1))" .
    then have d8: "8 * \<delta> \<le> r - 1" using a0 by (simp only: mult_le_cancel_right) simp
    have "\<delta> * (r - 1) \<le> (1 / 32) * (r - 1)"
      using d32 b0 by (intro mult_right_mono) simp_all
    then have d2: "\<delta> * (r - 1) < (r - 1) / 4" using b0 by simp
    have "\<delta> * r + \<delta> = \<delta> * (r - 1) + 2 * \<delta>" by (simp add: algebra_simps)
    with d2 d8 have "\<delta> * r + \<delta> < (r - 1) / 2" by simp
    with P ir show ?thesis by simp
  qed
  then show ?thesis by (simp add: js_round_def floor_less_iff)
qed

lemma length_resample:
  "S \<noteq> targetSampleRate \<Longrightarrow>
   length (resample S xs) = nat (resampleLength (S / targetSampleRate) (length xs))"
  by (simp add: resample_def Let_def)

lemma nth_resample:
  "S \<noteq> targetSampleRate \<Longrightarrow> i < length (resample S xs) \<Longrightarrow>
   resample S xs ! i = readSample xs (resampleIndex (S / targetSampleRate) i)"
  by (simp add: resample_def Let_def)

lemma resample_48k_length: "length (resample 48000 xs) = (length xs + 1) div 2"
  using js_round_half [of "length xs"]
  by (simp add: resample_def targetSampleRate_def resampleLength_def Let_def)

lemma resample_48k_nth:
  assumes "i < length (resample 48000 xs)"
  shows "resample 48000 xs ! i = xs ! (2 * i)"
proof -
  have ne: "(48000::real) \<noteq> targetSampleRate" by (simp add: targetSampleRate_def)
  have idx: "resampleIndex (48000 / targetSampleRate) i = int (2 * i)"
    using js_round_nat [of "2 * i"] by (simp add: resampleIndex_def targetSampleRate_def mult.commute)
  from assms have "i < (length xs + 1) div 2" by (simp add: resample_48k_length)
  then have "2 * i < length xs" by linarith
  moreover have "nat (2 * int i) = 2 * i" by linarith
  ultimately show ?thesis
    using nth_resample [OF ne assms] idx by (simp add: readSample_def)
qed

lemma resample_same: "resample 24000 xs = xs"
  by (simp add: resample_def targetSampleRate_def)

lemma resample_below_target:
  "resampleLength (12000 / targetSampleRate) 4 = 8
   \<and> resampleIndex (12000 / targetSampleRate) 7 = 4"
  by (simp add: resampleLength_def resampleIndex_def js_round_def targetSampleRate_def)

text \<open>
  C7. Off the target rate the resampler returns \<open>round(length / ratio)\<close> samples, sample
  \<open>i\<close> being the input at \<open>round(i * ratio)\<close> with \<open>ratio = sourceRate / targetRate\<close> and a
  target rate of 24000. From 48000 Hz the output is every second input sample, so a
  frame of even length (the page captures frames of 4096) is exactly halved; at the
  target rate the frame is returned as it is.
\<close>

theorem resample_nearest_sample:
  "targetSampleRate = 24000
   \<and> (S \<noteq> targetSampleRate \<longrightarrow>
        length (resample S xs) = nat (js_round (real (length xs) / (S / targetSampleRate))) \<and>
        (\<forall>i<length (resample S xs).
           resample S xs ! i = readSample xs (js_round (real i * (S / targetSampleRate)))))
   \<and> length (resample 48000 xs) = (length xs + 1) div 2
   \<and> (even (length xs) \<longrightarrow> 2 * length (resample 48000 xs) = length xs)
   \<and> (length xs = 4096 \<longrightarrow> length (resample 48000 xs) = 2048)
   \<and> (\<forall>i<length (resample 48000 xs). resample 48000 xs ! i = xs ! (2 * i))
   \<and> resample targetSampleRate xs = xs"
proof -
  have "even (length xs) \<Longrightarrow> 2 * ((length xs + 1) div 2) = length xs"
    by (elim evenE) simp
  then show ?thesis
    using length_resample [of S xs] nth_resample [of S _ xs]
    by (simp add: resample_48k_length resample_48k_nth resample_same targetSampleRate_def
          resampleLength_def resampleIndex_def)
qed

theorem resample_nearest_sample_witness:
  "resample 48000 [Sample 1, Sample 2, Sample 3, Sample 4] = [Sample 1, Sample 3]
   \<and> 2 * length (resample 48000 [Sample 1, Sample 2, Sample 3, Sample 4]) = 4
   \<and> resample 24000 [Sample 1, Sample 2, Sample 3, Sample 4]
       = [Sample 1, Sample 2, Sample 3, Sample 4]
   \<and> length (resample 48000 (replicate 4096 (Sample 0))) = 2048"
proof -
  define xs where "xs = [Sample 1, Sample 2, Sample 3, Sample 4]"
  have n: "length xs = 4" "xs ! 0 = Sample 1" "xs ! 2 = Sample 3" "even (length xs)"
    by (simp_all add: xs_def)
  note t = resample_nearest_sample [of 48000 xs]
  from t n have len2: "2 * length (resample 48000 xs) = 4" by simp
  then have len: "length (resample 48000 xs) = 2" by simp
  from t have nth: "\<And>i. i < length (resample 48000 xs) \<Longrightarrow> resample 48000 xs ! i = xs ! (2 * i)"
    by blast
  have n0: "resample 48000 xs ! 0 = Sample 1" using nth [of 0] len n by simp
  have n1: "resample 48000 xs ! 1 = Sample 3" using nth [of 1] len n by simp
  from len obtain a b where ab: "resample 48000 xs = [a, b]"
    by (auto simp: length_Suc_conv numeral_2_eq_2)
  with n0 n1 have r: "resample 48000 xs = [Sample 1, Sample 3]" by simp
  from t have same: "resample 24000 xs = xs" by simp
  from resample_nearest_sample [of 48000 "replicate 4096 (Sample 0)"]
  have frame: "length (resample 48000 (replicate 4096 (Sample 0))) = 2048" by simp
  from r len2 same frame show ?thesis unfolding xs_def by simp
qed

text \<open>
  C10. For a source rate of at least the 24000 Hz target, every index \<open>round(i * ratio)\<close>
  with \<open>0 \<le> i < round(L / ratio)\<close> lies in \<open>[0, L)\<close>, so each output sample of the resampler
  is an in-bounds read of the frame. The ratio and the roundings are exact here;
  \<open>resampleIndex_in_bounds_rounded\<close> covers computed values. (Below the target rate the
  bound fails: at 12000 Hz and \<open>L = 4\<close> the index for \<open>i = 7\<close> is 4.)
\<close>

theorem resample_reads_in_bounds:
  assumes S: "targetSampleRate \<le> S"
  shows "(int i < resampleLength (S / targetSampleRate) L \<longrightarrow>
            0 \<le> resampleIndex (S / targetSampleRate) i \<and>
            resampleIndex (S / targetSampleRate) i < int L)
       \<and> (\<forall>j<length (resample S xs). \<exists>k<length xs. resample S xs ! j = xs ! k)"
proof -
  have r: "1 \<le> S / targetSampleRate" using S by (simp add: targetSampleRate_def)
  have "\<exists>k<length xs. resample S xs ! j = xs ! k" if j: "j < length (resample S xs)" for j
  proof (cases "S = targetSampleRate")
    case True
    then show ?thesis using j by (auto simp: resample_def)
  next
    case False
    from j have "int j < resampleLength (S / targetSampleRate) (length xs)"
      by (simp add: length_resample [OF False])
    from resampleIndex_in_bounds [OF r this]
    have b: "0 \<le> resampleIndex (S / targetSampleRate) j"
         "resampleIndex (S / targetSampleRate) j < int (length xs)" .
    then have "nat (resampleIndex (S / targetSampleRate) j) < length xs" by simp
    moreover have "resample S xs ! j = xs ! nat (resampleIndex (S / targetSampleRate) j)"
      using b by (simp add: nth_resample [OF False j] readSample_def)
    ultimately show ?thesis by blast
  qed
  then show ?thesis using resampleIndex_in_bounds [OF r] by blast
qed

theorem resample_reads_in_bounds_witness:
  "targetSampleRate \<le> 44100
   \<and> resampleLength (44100 / targetSampleRate) 4096 = 2229
   \<and> resampleIndex (44100 / targetSampleRate) 2228 = 4094
   \<and> resampleIndex (44100 / targetSampleRate) 2228 < int 4096"
proof -
  have S: "targetSampleRate \<le> 44100" by (simp add: targetSampleRate_def)
  have len: "resampleLength (44100 / targetSampleRate) 4096 = 2229"
    by (simp add: resampleLength_def js_round_def targetSampleRate_def)
  have idx: "resampleIndex (44100 / targetSampleRate) 2228 = 4094"
    by (simp add: resampleIndex_def js_round_def targetSampleRate_def)
  from resample_reads_in_bounds [OF S, of 2228 4096] len
  have "resampleIndex (44100 / targetSampleRate) 2228 < int 4096" by simp
  with S len idx show ?thesis by simp
qed

section \<open>Playback scheduling\<close>

lemma duration_nonneg: "0 \<le> duration src"
  by (simp add: duration_def)

lemma playAudio_cases:
  "playAudio e now d s = s \<or>
   (\<exists>fs. fs \<noteq> [] \<and>
      playAudio e now d s =
        s\<lparr>started := started s @ [\<lparr>src_id = length (started s),
                                     src_start = max now (audioPlaybackTimeRef s), src_samples = fs\<rparr>],
          activeAudioSourcesRef := activeAudioSourcesRef s @ [\<lparr>src_id = length (started s),
                                     src_start = max now (audioPlaybackTimeRef s), src_samples = fs\<rparr>],
          audioPlaybackTimeRef := max now (audioPlaybackTimeRef s)
             + duration \<lparr>src_id = length (started s),
                         src_start = max now (audioPlaybackTimeRef s), src_samples = fs\<rparr>\<rparr>)"
  by (auto simp: playAudio_def Let_def split: option.splits sum.splits)

lemma scheduled_time_mono:
  assumes "scheduled s0 s new"
  shows "audioPlaybackTimeRef s0 \<le> audioPlaybackTimeRef s"
proof (cases "new = []")
  case True
  with assms show ?thesis by (simp add: scheduled_def)
next
  case False
  then have "last new \<in> set new" by simp
  with assms have "audioPlaybackTimeRef s0 \<le> src_start (last new)" by (simp add: scheduled_def)
  moreover have "src_start (last new) \<le> finish (last new)"
    using duration_nonneg [of "last new"] by (simp add: finish_def)
  ultimately have "audioPlaybackTimeRef s0 \<le> finish (last new)" by linarith
  then show ?thesis using assms False by (simp add: scheduled_def)
qed

lemma scheduled_playAudio:
  assumes "scheduled s0 s new"
  shows "\<exists>new'. scheduled s0 (playAudio e now d s) new'"
proof -
  from playAudio_cases [of e now d s] show ?thesis
  proof
    assume "playAudio e now d s = s"
    with assms show ?thesis by auto
  next
    assume "\<exists>fs. fs \<noteq> [] \<and> playAudio e now d s = s\<lparr>started := started s @ [\<lparr>src_id = length (started s),
                                     src_start = max now (audioPlaybackTimeRef s), src_samples = fs\<rparr>],
          activeAudioSourcesRef := activeAudioSourcesRef s @ [\<lparr>src_id = length (started s),
                                     src_start = max now (audioPlaybackTimeRef s), src_samples = fs\<rparr>],
          audioPlaybackTimeRef := max now (audioPlaybackTimeRef s)
             + duration \<lparr>src_id = length (started s),
                         src_start = max now (audioPlaybackTimeRef s), src_samples = fs\<rparr>\<rparr>"
    then obtain fs where eq: "playAudio e now d s = s\<lparr>started := started s @ [\<lparr>src_id = length (started s),
                                     src_start = max now (audioPlaybackTimeRef s), src_samples = fs\<rparr>],
          activeAudioSourcesRef := activeAudioSourcesRef s @ [\<lparr>src_id = length (started s),
                                     src_start = max now (audioPlaybackTimeRef s), src_samples = fs\<rparr>],
          audioPlaybackTimeRef := max now (audioPlaybackTimeRef s)
             + duration \<lparr>src_id = length (started s),
                         src_start = max now (audioPlaybackTimeRef s), src_samples = fs\<rparr>\<rparr>" by blast
    define src where "src = \<lparr>src_id = length (started s),
                         src_start = max now (audioPlaybackTimeRef s), src_samples = fs\<rparr>"
    have st: "src_start src = max now (audioPlaybackTimeRef s)" by (simp add: src_def)
    have mono: "audioPlaybackTimeRef s0 \<le> audioPlaybackTimeRef s"
      using assms by (rule scheduled_time_mono)
    have "scheduled s0 (playAudio e now d s) (new @ [src])"
      using assms mono st unfolding eq src_def [symmetric]
      by (auto simp: scheduled_def successively_append_iff finish_def)
    then show ?thesis by blast
  qed
qed

lemma scheduled_cong:
  "scheduled s0 s new \<Longrightarrow> started s' = started s \<Longrightarrow>
   activeAudioSourcesRef s' = activeAudioSourcesRef s \<Longrightarrow> stopped s' = stopped s \<Longrightarrow>
   audioPlaybackTimeRef s' = audioPlaybackTimeRef s \<Longrightarrow> scheduled s0 s' new"
  by (simp add: scheduled_def)

lemma scheduled_playQueue:
  "\<exists>new. scheduled s0 s new \<Longrightarrow> \<exists>new'. scheduled s0 (playQueue e now q s) new'"
proof (induction q arbitrary: s)
  case Nil
  then show ?case by simp
next
  case (Cons d ds)
  from Cons.prems obtain new where "scheduled s0 s new" by blast
  then have "scheduled s0 (s\<lparr>audioQueueRef := ds\<rparr>) new" by (rule scheduled_cong) simp_all
  then have "\<exists>new'. scheduled s0 (playAudio e now d (s\<lparr>audioQueueRef := ds\<rparr>)) new'"
    by (rule scheduled_playAudio)
  then show ?case using Cons.IH by simp
qed

lemma scheduled_delta:
  assumes "\<exists>new. scheduled s0 s new" and "js_prop m ''type'' = JStr ''response.audio.delta''"
  shows "\<exists>new'. scheduled s0 (handleMessage e aiT now (Some m) s) new'"
proof -
  have nn: "\<not> nullish m" using assms(2) by (auto simp: nullish_def)
  from assms(1) obtain new where n: "scheduled s0 s new" by blast
  show ?thesis
  proof (cases "truthy (js_prop m ''delta'')")
    case False
    then have "handleMessage e aiT now (Some m) s = s"
      using nn assms(2) by (simp add: handleMessage_def handleMessage_try_def dispatch_def)
    then show ?thesis using assms(1) by simp
  next
    case True
    then have eq: "handleMessage e aiT now (Some m) s =
       playQueue e now (audioQueueRef s @ [js_prop m ''delta''])
         (s\<lparr>audioQueueRef := audioQueueRef s @ [js_prop m ''delta''], isSpeaking := True\<rparr>)"
      using nn assms(2)
      by (simp add: handleMessage_def handleMessage_try_def dispatch_def processAudioQueue_def)
    have "scheduled s0 (s\<lparr>audioQueueRef := audioQueueRef s @ [js_prop m ''delta''], isSpeaking := True\<rparr>) new"
      using n by (rule scheduled_cong) simp_all
    then show ?thesis unfolding eq by (intro scheduled_playQueue) blast
  qed
qed

lemma scheduled_deliverAll:
  assumes "\<exists>new. scheduled s0 s new"
    and "\<forall>m \<in> set ms. js_prop (snd m) ''type'' = JStr ''response.audio.delta''"
  shows "\<exists>new'. scheduled s0 (deliverAll e aiT s ms) new'"
  using assms
proof (induction ms arbitrary: s)
  case Nil
  then show ?case by (simp add: deliverAll_def)
next
  case (Cons m ms)
  obtain now d where m: "m = (now, d)" by (cases m)
  from Cons.prems(2) m have ty: "js_prop d ''type'' = JStr ''response.audio.delta''" by simp
  have "\<exists>new'. scheduled s0 (handleMessage e aiT now (Some d) s) new'"
    using Cons.prems(1) ty by (rule scheduled_delta)
  from Cons.IH [OF this] Cons.prems(2) show ?case by (simp add: deliverAll_def m)
qed

lemma gapless_sorted:
  assumes "successively (\<lambda>a b. finish a \<le> src_start b) new"
  shows "sorted (map src_start new)"
proof -
  have "successively (\<lambda>a b. src_start a \<le> src_start b) new"
    using assms
  proof (rule successively_mono)
    fix a b :: audio_source
    assume "finish a \<le> src_start b"
    then show "src_start a \<le> src_start b"
      using duration_nonneg [of a] by (simp add: finish_def)
  qed
  then have "successively (\<le>) (map src_start new)" by (simp add: successively_map)
  then show ?thesis by (simp add: successively_conv_sorted_wrt)
qed

lemma scheduled_refl: "scheduled s s []"
  by (simp add: scheduled_def)

lemma deliverAll_scheduled:
  assumes "\<forall>m \<in> set ms. js_prop (snd m) ''type'' = JStr ''response.audio.delta''"
  shows "\<exists>new. scheduled s (deliverAll e aiT s ms) new"
  using scheduled_deliverAll [OF _ assms, of s s] scheduled_refl by blast

lemma pcm16ToFloat32_even:
  "even (length bs) \<Longrightarrow> \<exists>fs. pcm16ToFloat32 bs = Inr fs \<and> length fs = length bs div 2"
proof (induction bs rule: pcm16ToFloat32.induct)
  case 1
  then show ?case by simp
next
  case (2 b)
  then show ?case by simp
next
  case (3 lo hi bs)
  then obtain fs where "pcm16ToFloat32 bs = Inr fs" "length fs = length bs div 2" by auto
  then show ?case by simp
qed

lemma playAudio_decodable:
  assumes "atob e (js_toString d) = Some bytes" "bytes \<noteq> []" "even (length bytes)"
  shows "\<exists>src. started (playAudio e now d s) = started s @ [src] \<and>
           activeAudioSourcesRef (playAudio e now d s) = activeAudioSourcesRef s @ [src] \<and>
           src_start src = max now (audioPlaybackTimeRef s) \<and>
           duration src = real (length bytes div 2) / 24000 \<and>
           audioPlaybackTimeRef (playAudio e now d s) = src_start src + duration src"
proof -
  from pcm16ToFloat32_even [OF assms(3)] obtain fs
    where fs: "pcm16ToFloat32 bytes = Inr fs" "length fs = length bytes div 2" by blast
  have "fs \<noteq> []"
  proof
    assume "fs = []"
    with fs(2) have "length bytes div 2 = 0" by simp
    with assms(3) have "length bytes = 0" by (auto elim: evenE)
    with assms(2) show False by simp
  qed
  then show ?thesis
    using assms(1) fs by (simp add: playAudio_def Let_def duration_def)
qed

text \<open>
  C3. \<^verbatim>\<open>playAudio\<close> either drops the chunk (undecodable or empty) and changes nothing, or
  starts one source at \<open>max(currentTime, nextFree)\<close> and moves \<open>nextFree\<close> to that start plus
  the duration of the buffer; a chunk that decodes to a non-empty, even number of bytes
  is always started, with a duration of half that number over 24000. Hence over any
  sequence of inbound audio-delta messages the sources started are back to back: each
  starts no earlier than its predecessor's start plus duration, and the start times are
  non-decreasing.
\<close>

theorem playback_gapless:
  fixes ms :: "(real \<times> jsval) list"
  assumes ms: "\<forall>m \<in> set ms. js_prop (snd m) ''type'' = JStr ''response.audio.delta''"
  shows "(playAudio e now d s = s \<or>
          (\<exists>src. started (playAudio e now d s) = started s @ [src] \<and>
                 activeAudioSourcesRef (playAudio e now d s) = activeAudioSourcesRef s @ [src] \<and>
                 src_start src = max now (audioPlaybackTimeRef s) \<and>
                 audioPlaybackTimeRef (playAudio e now d s) = src_start src + duration src))
       \<and> (atob e (js_toString d) = Some bytes \<and> bytes \<noteq> [] \<and> even (length bytes) \<longrightarrow>
            (\<exists>src. started (playAudio e now d s) = started s @ [src] \<and>
                   src_start src = max now (audioPlaybackTimeRef s) \<and>
                   duration src = real (length bytes div 2) / 24000 \<and>
                   audioPlaybackTimeRef (playAudio e now d s) = src_start src + duration src))
       \<and> (\<exists>new. started (deliverAll e aiT s ms) = started s @ new \<and>
            (\<forall>n. Suc n < length new \<longrightarrow>
                   src_start (new ! n) + duration (new ! n) \<le> src_start (new ! Suc n)) \<and>
            sorted (map src_start new) \<and>
            (new \<noteq> [] \<longrightarrow>
               audioPlaybackTimeRef (deliverAll e aiT s ms)
                 = src_start (last new) + duration (last new)))"
proof -
  from playAudio_cases [of e now d s]
  have 1: "playAudio e now d s = s \<or>
          (\<exists>src. started (playAudio e now d s) = started s @ [src] \<and>
                 activeAudioSourcesRef (playAudio e now d s) = activeAudioSourcesRef s @ [src] \<and>
                 src_start src = max now (audioPlaybackTimeRef s) \<and>
                 audioPlaybackTimeRef (playAudio e now d s) = src_start src + duration src)"
    by (elim disjE exE conjE) simp_all
  have 2: "atob e (js_toString d) = Some bytes \<and> bytes \<noteq> [] \<and> even (length bytes) \<longrightarrow>
            (\<exists>src. started (playAudio e now d s) = started s @ [src] \<and>
                   src_start src = max now (audioPlaybackTimeRef s) \<and>
                   duration src = real (length bytes div 2) / 24000 \<and>
                   audioPlaybackTimeRef (playAudio e now d s) = src_start src + duration src)"
    using playAudio_decodable [of e d bytes now s] by blast
  from deliverAll_scheduled [OF ms] obtain new
    where new: "scheduled s (deliverAll e aiT s ms) new" by blast
  then have succ: "successively (\<lambda>a b. finish a \<le> src_start b) new"
    by (simp add: scheduled_def)
  then have "\<forall>n. Suc n < length new \<longrightarrow>
                   src_start (new ! n) + duration (new ! n) \<le> src_start (new ! Suc n)"
    by (simp add: successively_conv_nth finish_def)
  moreover have "sorted (map src_start new)" using succ by (rule gapless_sorted)
  moreover have "started (deliverAll e aiT s ms) = started s @ new"
    using new by (simp add: scheduled_def)
  moreover have "new \<noteq> [] \<longrightarrow>
               audioPlaybackTimeRef (deliverAll e aiT s ms)
                 = src_start (last new) + duration (last new)"
    using new by (simp add: scheduled_def finish_def)
  ultimately have 3: "\<exists>new. started (deliverAll e aiT s ms) = started s @ new \<and>
            (\<forall>n. Suc n < length new \<longrightarrow>
                   src_start (new ! n) + duration (new ! n) \<le> src_start (new ! Suc n)) \<and>
            sorted (map src_start new) \<and>
            (new \<noteq> [] \<longrightarrow>
               audioPlaybackTimeRef (deliverAll e aiT s ms)
                 = src_start (last new) + duration (last new))"
    by blast
  from 1 2 3 show ?thesis by (intro conjI)
qed

lemma exampleChunks_delivered:
  "deliverAll exampleEnv [] (initialState\<lparr>wsRef := Some OPEN\<rparr>) exampleChunks =
     initialState
       \<lparr>wsRef := Some OPEN, isSpeaking := True,
        audioPlaybackTimeRef := 1 + 3 / 24000,
        activeAudioSourcesRef :=
          [\<lparr>src_id = 0, src_start = 1, src_samples = [0, 0]\<rparr>,
           \<lparr>src_id = 1, src_start = 1 + 2 / 24000, src_samples = [0]\<rparr>],
        started :=
          [\<lparr>src_id = 0, src_start = 1, src_samples = [0, 0]\<rparr>,
           \<lparr>src_id = 1, src_start = 1 + 2 / 24000, src_samples = [0]\<rparr>]\<rparr>"
  by (simp add: deliverAll_def exampleChunks_def audioDelta_def handleMessage_def
        handleMessage_try_def dispatch_def nullish_def processAudioQueue_def playAudio_def
        exampleEnv_def getInt16_le_def duration_def initialState_def Let_def)

theorem playback_gapless_witness:
  "started (deliverAll exampleEnv [] (initialState\<lparr>wsRef := Some OPEN\<rparr>) exampleChunks) =
     [\<lparr>src_id = 0, src_start = 1, src_samples = [0, 0]\<rparr>,
      \<lparr>src_id = 1, src_start = 1 + 2 / 24000, src_samples = [0]\<rparr>]
   \<and> sorted (map src_start
         (started (deliverAll exampleEnv [] (initialState\<lparr>wsRef := Some OPEN\<rparr>) exampleChunks)))
   \<and> audioPlaybackTimeRef
         (playAudio exampleEnv 7 (JStr ''AAA='') (initialState\<lparr>wsRef := Some OPEN\<rparr>))
       = 7 + 1 / 24000"
proof -
  define s0 where "s0 = initialState\<lparr>wsRef := Some OPEN\<rparr>"
  have ty: "\<forall>m \<in> set exampleChunks. js_prop (snd m) ''type'' = JStr ''response.audio.delta''"
    by (simp add: exampleChunks_def audioDelta_def)
  have st0: "started s0 = []" "audioPlaybackTimeRef s0 = 0"
    by (simp_all add: s0_def initialState_def)
  have dec: "atob exampleEnv (js_toString (JStr ''AAA='')) = Some [0, 0]
             \<and> [0, 0 :: 8 word] \<noteq> [] \<and> even (length [0, 0 :: 8 word])"
    by (simp add: exampleEnv_def)
  note t = playback_gapless
    [OF ty, where e = exampleEnv and s = s0 and aiT = "[]"
       and now = 7 and d = "JStr ''AAA=''" and bytes = "[0, 0]"]
  from t dec obtain src where
    src: "src_start src = max 7 (audioPlaybackTimeRef s0)"
      "duration src = real (length [0, 0 :: 8 word] div 2) / 24000"
      "audioPlaybackTimeRef (playAudio exampleEnv 7 (JStr ''AAA='') s0)
         = src_start src + duration src"
    by blast
  have c: "audioPlaybackTimeRef (playAudio exampleEnv 7 (JStr ''AAA='') s0) = 7 + 1 / 24000"
    by (simp add: src st0)
  from t obtain new where
    "started (deliverAll exampleEnv [] s0 exampleChunks) = started s0 @ new"
    and "sorted (map src_start new)"
    by blast
  then have b: "sorted (map src_start (started (deliverAll exampleEnv [] s0 exampleChunks)))"
    by (simp only: st0 append_Nil)
  have a: "started (deliverAll exampleEnv [] s0 exampleChunks) =
     [\<lparr>src_id = 0, src_start = 1, src_samples = [0, 0]\<rparr>,
      \<lparr>src_id = 1, src_start = 1 + 2 / 24000, src_samples = [0]\<rparr>]"
    unfolding s0_def by (simp only: exampleChunks_delivered) simp
  from a b c show ?thesis unfolding s0_def by (intro conjI)
qed

lemma speech_started_interrupts:
  assumes "js_prop m ''type'' = JStr ''input_audio_buffer.speech_started''"
  shows "handleMessage e aiT now (Some m) s = (interruptAudio s)\<lparr>currentTranscript := ''Listening...''\<rparr>"
proof -
  have "\<not> nullish m" using assms by (auto simp: nullish_def)
  then show ?thesis
    using assms by (simp add: handleMessage_def handleMessage_try_def dispatch_def)
qed

text \<open>
  C4. Interruption calls \<^verbatim>\<open>stop()\<close> on every handle of the active set, in particular on
  every source started by a preceding run of audio-delta messages, and leaves the active
  set and the queue empty and the cursor \<open>nextFree\<close> at 0; it sends \<^verbatim>\<open>response.cancel\<close> exactly
  when the socket is open. Invoked again, or with nothing in flight, it stops nothing
  more and leaves the same empty active set, empty queue and cursor 0. The
  \<^verbatim>\<open>speech_started\<close> message is what invokes it.
\<close>

theorem interrupt_stops_all:
  fixes ms :: "(real \<times> jsval) list"
  assumes ms: "\<forall>m \<in> set ms. js_prop (snd m) ''type'' = JStr ''response.audio.delta''"
    and m: "js_prop m ''type'' = JStr ''input_audio_buffer.speech_started''"
  shows "stopped (interruptAudio s) = stopped s @ map src_id (activeAudioSourcesRef s)
       \<and> (\<forall>src \<in> set (activeAudioSourcesRef s). src_id src \<in> set (stopped (interruptAudio s)))
       \<and> activeAudioSourcesRef (interruptAudio s) = []
       \<and> audioQueueRef (interruptAudio s) = []
       \<and> audioPlaybackTimeRef (interruptAudio s) = 0
       \<and> \<not> isSpeaking (interruptAudio s)
       \<and> sent (interruptAudio s) = sent s @ (if wsRef s = Some OPEN then [ResponseCancel] else [])
       \<and> stopped (interruptAudio (interruptAudio s)) = stopped (interruptAudio s)
       \<and> activeAudioSourcesRef (interruptAudio (interruptAudio s)) = []
       \<and> audioQueueRef (interruptAudio (interruptAudio s)) = []
       \<and> audioPlaybackTimeRef (interruptAudio (interruptAudio s)) = 0
       \<and> (activeAudioSourcesRef s = [] \<longrightarrow> stopped (interruptAudio s) = stopped s)
       \<and> (\<exists>new. started (deliverAll e aiT s ms) = started s @ new \<and>
             stopped (interruptAudio (deliverAll e aiT s ms))
               = stopped s @ map src_id (activeAudioSourcesRef s) @ map src_id new)
       \<and> handleMessage e aiT now (Some m) s
           = (interruptAudio s)\<lparr>currentTranscript := ''Listening...''\<rparr>"
proof -
  from deliverAll_scheduled [OF ms] obtain new
    where new: "scheduled s (deliverAll e aiT s ms) new" by blast
  have unchanged: "stopped (deliverAll e aiT s ms) = stopped s"
    using new by (simp add: scheduled_def)
  have "started (deliverAll e aiT s ms) = started s @ new \<and>
             stopped (interruptAudio (deliverAll e aiT s ms))
               = stopped s @ map src_id (activeAudioSourcesRef s) @ map src_id new"
    using new unchanged by (simp add: scheduled_def interruptAudio_def)
  then have "\<exists>new. started (deliverAll e aiT s ms) = started s @ new \<and>
             stopped (interruptAudio (deliverAll e aiT s ms))
               = stopped s @ map src_id (activeAudioSourcesRef s) @ map src_id new" ..
  then show ?thesis
    using speech_started_interrupts [OF m, of e aiT now s]
    by (simp add: interruptAudio_def)
qed

theorem interrupt_stops_all_witness:
  "stopped (interruptAudio
      (deliverAll exampleEnv [] (initialState\<lparr>wsRef := Some OPEN\<rparr>) exampleChunks)) = [0, 1]
   \<and> sent (interruptAudio
      (deliverAll exampleEnv [] (initialState\<lparr>wsRef := Some OPEN\<rparr>) exampleChunks))
       = [ResponseCancel]
   \<and> activeAudioSourcesRef (interruptAudio
      (deliverAll exampleEnv [] (initialState\<lparr>wsRef := Some OPEN\<rparr>) exampleChunks)) = []
   \<and> stopped (interruptAudio initialState) = []
   \<and> sent (interruptAudio initialState) = []"
proof -
  define s1 where "s1 = deliverAll exampleEnv [] (initialState\<lparr>wsRef := Some OPEN\<rparr>) exampleChunks"
  have ty: "\<forall>m \<in> set exampleChunks. js_prop (snd m) ''type'' = JStr ''response.audio.delta''"
    by (simp add: exampleChunks_def audioDelta_def)
  have m: "js_prop (JObj [(''type'', JStr ''input_audio_buffer.speech_started'')]) ''type''
             = JStr ''input_audio_buffer.speech_started''"
    by simp
  have s1: "stopped s1 = []" "sent s1 = []" "wsRef s1 = Some OPEN"
      "map src_id (activeAudioSourcesRef s1) = [0, 1]"
    by (simp_all only: s1_def exampleChunks_delivered) (simp_all add: initialState_def)
  note t = interrupt_stops_all [OF ty m, of s1 exampleEnv "[]" 0]
  from t have "stopped (interruptAudio s1) = stopped s1 @ map src_id (activeAudioSourcesRef s1)"
    by (rule conjunct1)
  then have a: "stopped (interruptAudio s1) = [0, 1]" by (simp only: s1 append_Nil)
  from t have "sent (interruptAudio s1) = sent s1 @ (if wsRef s1 = Some OPEN then [ResponseCancel] else [])"
    by blast
  then have b: "sent (interruptAudio s1) = [ResponseCancel]" by (simp add: s1)
  from t have c: "activeAudioSourcesRef (interruptAudio s1) = []" by blast
  have i: "activeAudioSourcesRef initialState = []" "stopped initialState = []"
      "sent initialState = []" "wsRef initialState \<noteq> Some OPEN"
    by (simp_all add: initialState_def)
  note t0 = interrupt_stops_all [OF ty m, of initialState exampleEnv "[]" 0]
  from t0 i(1) have "stopped (interruptAudio initialState) = stopped initialState" by blast
  then have d: "stopped (interruptAudio initialState) = []" by (simp only: i)
  from t0 have "sent (interruptAudio initialState)
      = sent initialState @ (if wsRef initialState = Some OPEN then [ResponseCancel] else [])"
    by blast
  then have e: "sent (interruptAudio initialState) = []" by (simp add: i)
  from a b c d e show ?thesis unfolding s1_def by (intro conjI)
qed

section \<open>Dialogue context\<close>

lemma digits_0: "digits 0 = ''0''"
  by (subst digits.simps) simp

lemma numberToString_0: "numberToString 0 = ''0''"
  by (simp add: numberToString_def digits_0)

lemma truthy_not_nullish: "js_prop d k = JStr t \<Longrightarrow> \<not> nullish d"
  by (auto simp: nullish_def)

text \<open>
  C5. From any dialogue context, \<^verbatim>\<open>start_quiz\<close> then \<^verbatim>\<open>pending_answer(0, "B")\<close> leaves the answers
  empty with the quiz answer pending; \<^verbatim>\<open>answer_cancelled\<close> then gives no answers and no
  pending confirmation, while \<^verbatim>\<open>answer_confirmed(0, "B")\<close> gives exactly the answer \<open>"B"\<close> under
  key \<open>0\<close> and no pending confirmation. \<^verbatim>\<open>answer_cancelled\<close> leaves the answers of any state
  as they are.
\<close>

theorem quiz_answer_flow:
  fixes e :: env and s s' :: state
  assumes d1: "js_prop d1 ''action'' = JStr ''start_quiz''"
    and d2: "js_prop d2 ''action'' = JStr ''pending_answer''"
            "js_prop d2 ''questionIndex'' = JNum 0" "js_prop d2 ''answer'' = JStr ''B''"
    and d3: "js_prop d3 ''action'' = JStr ''answer_cancelled''"
    and d4: "js_prop d4 ''action'' = JStr ''answer_confirmed''"
            "js_prop d4 ''questionIndex'' = JNum 0" "js_prop d4 ''answer'' = JStr ''B''"
  defines "s2 \<equiv> snd (handleContextUpdate e d2 (snd (handleContextUpdate e d1 s)))"
  shows "quizAnswers (currentContext s2) = Map.empty
       \<and> pendingConfirmation (currentContext s2) =
           JObj [(''type'', JStr ''quiz_answer''), (''questionIndex'', JNum 0),
                 (''answer'', JStr ''B''), (''answerText'', js_prop d2 ''answerText'')]
       \<and> quizAnswers (currentContext (snd (handleContextUpdate e d3 s2))) = Map.empty
       \<and> pendingConfirmation (currentContext (snd (handleContextUpdate e d3 s2))) = JNull
       \<and> quizAnswers (currentContext (snd (handleContextUpdate e d4 s2))) = [''0'' \<mapsto> JStr ''B'']
       \<and> pendingConfirmation (currentContext (snd (handleContextUpdate e d4 s2))) = JNull
       \<and> quizAnswers (currentContext (snd (handleContextUpdate e d3 s'))) =
           quizAnswers (currentContext s')"
proof -
  note nn = truthy_not_nullish [OF d1] truthy_not_nullish [OF d2(1)]
            truthy_not_nullish [OF d3] truthy_not_nullish [OF d4(1)]
  have c: "handleContextUpdate e d3 t =
             (None, setCurrentContext (\<lambda>prev. prev\<lparr>pendingConfirmation := JNull\<rparr>) t)" for t
    using nn d3 by (simp add: handleContextUpdate_def)
  have s2: "currentContext s2 = (currentContext s)
              \<lparr>mode := Quiz, quiz := js_prop d1 ''quiz'',
               quizQuestions := js_or (js_prop d1 ''questions'') (JArr []),
               currentQuestionIndex := JNum 0, quizAnswers := Map.empty,
               pendingConfirmation :=
                 JObj [(''type'', JStr ''quiz_answer''), (''questionIndex'', JNum 0),
                       (''answer'', JStr ''B''), (''answerText'', js_prop d2 ''answerText'')]\<rparr>"
    using nn d1 d2 by (simp add: s2_def handleContextUpdate_def setCurrentContext_def)
  have s4: "currentContext (snd (handleContextUpdate e d4 s2)) =
              (currentContext s2)\<lparr>quizAnswers := (quizAnswers (currentContext s2))(''0'' \<mapsto> JStr ''B''),
                                  pendingConfirmation := JNull\<rparr>"
    using nn d4 by (simp add: handleContextUpdate_def setCurrentContext_def numberToString_0)
  show ?thesis
    by (simp add: c s4 setCurrentContext_def) (simp add: s2)
qed

theorem quiz_answer_flow_witness:
  "quizAnswers (currentContext (snd (handleContextUpdate exampleEnv
       (JObj [(''action'', JStr ''answer_cancelled'')])
       (snd (handleContextUpdate exampleEnv
          (JObj [(''action'', JStr ''pending_answer''), (''questionIndex'', JNum 0),
                 (''answer'', JStr ''B''), (''answerText'', JStr ''Paris'')])
          (snd (handleContextUpdate exampleEnv
             (JObj [(''action'', JStr ''start_quiz''), (''quiz'', JObj [(''id'', JNum 7)]),
                    (''questions'', JArr [JObj [(''id'', JNum 1)]])])
             initialState))))))) = Map.empty
   \<and> quizAnswers (currentContext (snd (handleContextUpdate exampleEnv
       (JObj [(''action'', JStr ''answer_confirmed''), (''questionIndex'', JNum 0),
              (''answer'', JStr ''B'')])
       (snd (handleContextUpdate exampleEnv
          (JObj [(''action'', JStr ''pending_answer''), (''questionIndex'', JNum 0),
                 (''answer'', JStr ''B''), (''answerText'', JStr ''Paris'')])
          (snd (handleContextUpdate exampleEnv
             (JObj [(''action'', JStr ''start_quiz''), (''quiz'', JObj [(''id'', JNum 7)]),
                    (''questions'', JArr [JObj [(''id'', JNum 1)]])])
             initialState))))))) = [''0'' \<mapsto> JStr ''B'']"
proof -
  let ?d1 = "JObj [(''action'', JStr ''start_quiz''), (''quiz'', JObj [(''id'', JNum 7)]),
                    (''questions'', JArr [JObj [(''id'', JNum 1)]])]"
  let ?d2 = "JObj [(''action'', JStr ''pending_answer''), (''questionIndex'', JNum 0),
                 (''answer'', JStr ''B''), (''answerText'', JStr ''Paris'')]"
  let ?d3 = "JObj [(''action'', JStr ''answer_cancelled'')]"
  let ?d4 = "JObj [(''action'', JStr ''answer_confirmed''), (''questionIndex'', JNum 0),
              (''answer'', JStr ''B'')]"
  have h: "js_prop ?d1 ''action'' = JStr ''start_quiz''"
    "js_prop ?d2 ''action'' = JStr ''pending_answer''"
    "js_prop ?d2 ''questionIndex'' = JNum 0" "js_prop ?d2 ''answer'' = JStr ''B''"
    "js_prop ?d3 ''action'' = JStr ''answer_cancelled''"
    "js_prop ?d4 ''action'' = JStr ''answer_confirmed''"
    "js_prop ?d4 ''questionIndex'' = JNum 0" "js_prop ?d4 ''answer'' = JStr ''B''"
    by simp_all
  note t = quiz_answer_flow [OF h, of exampleEnv initialState initialState]
  from t show ?thesis by (intro conjI) (elim conjE, assumption)+
qed

section \<open>Event router\<close>

lemma playAudio_frame:
  "\<exists>X Y Z. playAudio e now d s =
     s\<lparr>started := X, activeAudioSourcesRef := Y, audioPlaybackTimeRef := Z\<rparr>"
proof -
  from playAudio_cases [of e now d s] show ?thesis
  proof (elim disjE exE conjE)
    assume "playAudio e now d s = s"
    then have "playAudio e now d s =
      s\<lparr>started := started s, activeAudioSourcesRef := activeAudioSourcesRef s,
        audioPlaybackTimeRef := audioPlaybackTimeRef s\<rparr>" by simp
    then show ?thesis by blast
  next
    fix fs
    assume "playAudio e now d s =
        s\<lparr>started := started s @ [\<lparr>src_id = length (started s),
                                     src_start = max now (audioPlaybackTimeRef s), src_samples = fs\<rparr>],
          activeAudioSourcesRef := activeAudioSourcesRef s @ [\<lparr>src_id = length (started s),
                                     src_start = max now (audioPlaybackTimeRef s), src_samples = fs\<rparr>],
          audioPlaybackTimeRef := max now (audioPlaybackTimeRef s)
             + duration \<lparr>src_id = length (started s),
                         src_start = max now (audioPlaybackTimeRef s), src_samples = fs\<rparr>\<rparr>"
    then show ?thesis by blast
  qed
qed

lemma playQueue_frame:
  "\<exists>X Y Z Q. playQueue e now q s =
     s\<lparr>started := X, activeAudioSourcesRef := Y, audioPlaybackTimeRef := Z, audioQueueRef := Q\<rparr>"
proof (induction q arbitrary: s)
  case Nil
  show ?case
    by (rule exI [of _ "started s"], rule exI [of _ "activeAudioSourcesRef s"],
        rule exI [of _ "audioPlaybackTimeRef s"], rule exI [of _ "audioQueueRef s"]) simp
next
  case (Cons d ds)
  obtain X Y Z where 1: "playAudio e now d (s\<lparr>audioQueueRef := ds\<rparr>) =
     s\<lparr>audioQueueRef := ds, started := X, activeAudioSourcesRef := Y, audioPlaybackTimeRef := Z\<rparr>"
    using playAudio_frame [of e now d "s\<lparr>audioQueueRef := ds\<rparr>"] by auto
  obtain X' Y' Z' Q' where 2:
    "playQueue e now ds
       (s\<lparr>audioQueueRef := ds, started := X, activeAudioSourcesRef := Y, audioPlaybackTimeRef := Z\<rparr>) =
     (s\<lparr>audioQueueRef := ds, started := X, activeAudioSourcesRef := Y, audioPlaybackTimeRef := Z\<rparr>)
       \<lparr>started := X', activeAudioSourcesRef := Y', audioPlaybackTimeRef := Z', audioQueueRef := Q'\<rparr>"
    using Cons.IH by blast
  have "playQueue e now (d # ds) s =
     s\<lparr>started := X', activeAudioSourcesRef := Y', audioPlaybackTimeRef := Z', audioQueueRef := Q'\<rparr>"
    by (simp add: 1 2)
  then show ?case by blast
qed

text \<open>The audio fields: what playing a queue of chunks may change.\<close>

lemma processAudioQueue_frame:
  "\<exists>X Y Z Q B. processAudioQueue e now s =
     s\<lparr>started := X, activeAudioSourcesRef := Y, audioPlaybackTimeRef := Z, audioQueueRef := Q,
       isSpeaking := B\<rparr>"
proof (cases "audioQueueRef s = []")
  case True
  then have "processAudioQueue e now s = s" by (simp add: processAudioQueue_def)
  then show ?thesis
    by (intro exI [of _ "started s"] exI [of _ "activeAudioSourcesRef s"]
          exI [of _ "audioPlaybackTimeRef s"] exI [of _ "audioQueueRef s"]
          exI [of _ "isSpeaking s"]) simp
next
  case False
  obtain X Y Z Q where "playQueue e now (audioQueueRef s) (s\<lparr>isSpeaking := True\<rparr>) =
     s\<lparr>isSpeaking := True, started := X, activeAudioSourcesRef := Y, audioPlaybackTimeRef := Z,
       audioQueueRef := Q\<rparr>"
    using playQueue_frame [of e now "audioQueueRef s" "s\<lparr>isSpeaking := True\<rparr>"] by auto
  then have "processAudioQueue e now s =
     s\<lparr>started := X, activeAudioSourcesRef := Y, audioPlaybackTimeRef := Z, audioQueueRef := Q,
       isSpeaking := True\<rparr>"
    using False by (simp add: processAudioQueue_def)
  then show ?thesis by blast
qed

lemma processAudioQueue_keeps: "keepsSession s (processAudioQueue e now s)"
proof -
  obtain X Y Z Q B where eq: "processAudioQueue e now s =
     s\<lparr>started := X, activeAudioSourcesRef := Y, audioPlaybackTimeRef := Z, audioQueueRef := Q,
       isSpeaking := B\<rparr>"
    using processAudioQueue_frame by blast
  show ?thesis by (simp add: eq keepsSession_def)
qed

lemma keepsSession_refl: "keepsSession s s"
  by (simp add: keepsSession_def)

lemma handleContextUpdate_keeps: "keepsSession s (snd (handleContextUpdate e d s))"
proof (cases "nullish d")
  case True
  then show ?thesis by (simp add: handleContextUpdate_def keepsSession_refl)
next
  case False
  show ?thesis
  proof (cases "actionOf (js_prop d ''action'')")
    case StartLesson
    with False show ?thesis
      by (simp add: handleContextUpdate_def keepsSession_def setCurrentContext_def Let_def
            truthyStr_def split: jsval.splits)
  qed (use False in \<open>simp_all add: handleContextUpdate_def keepsSession_def
         setCurrentContext_def Let_def\<close>)
qed

lemma dispatch_keeps: "keepsSession s (snd (dispatch e aiT now d s))"
proof (cases "nullish d")
  case True
  then show ?thesis by (simp add: dispatch_def keepsSession_refl)
next
  case False
  show ?thesis
  proof (cases "messageType (js_prop d ''type'')")
    case AudioDelta
    with False show ?thesis
      using processAudioQueue_keeps
              [of "s\<lparr>audioQueueRef := audioQueueRef s @ [js_prop d ''delta'']\<rparr>" e now]
      by (simp add: dispatch_def keepsSession_def)
  next
    case ContextUpdate
    with False show ?thesis
      using handleContextUpdate_keeps [of s e "js_prop d ''data''"] by (simp add: dispatch_def)
  next
    case ResponseDone
    with False show ?thesis
      by (simp add: dispatch_def keepsSession_def addMessage_def rateLimited_def Let_def
            split: jsval.splits option.splits)
  qed (use False in \<open>simp_all add: dispatch_def keepsSession_def addMessage_def
         interruptAudio_def resetAudioPlayback_def\<close>)
qed

lemma handleMessage_keeps: "keepsSession s (handleMessage e aiT now parsed s)"
  by (cases parsed) (simp_all add: handleMessage_def handleMessage_try_def keepsSession_refl
        dispatch_keeps)

lemma unhandled_dispatch:
  assumes "\<forall>t \<in> set handledTypes. js_prop d ''type'' \<noteq> JStr t" and "\<not> nullish d"
  shows "dispatch e aiT now d s = (None, s)"
  using assms(2) messageType_unhandled [OF assms(1)] by (simp add: dispatch_def)

text \<open>
  What the handler does on its own. A message whose type is none of the handled ones
  leaves the whole state as it was, and (unless the payload is \<^verbatim>\<open>null\<close>) nothing is thrown
  while it is dispatched. For any event at all, parsable or not, the handler returns the
  state that the \<^verbatim>\<open>try\<close> block had reached, whether or not it threw, with the socket as
  before and the connection flag not dropped. Text that does not parse changes nothing.
  This says nothing of what a render makes of the state the handler returns.
\<close>

lemma handleMessage_returns:
  assumes ty: "\<forall>t \<in> set handledTypes. js_prop d ''type'' \<noteq> JStr t"
  shows "handleMessage e aiT now (Some d) s = s
       \<and> (\<not> nullish d \<longrightarrow> handleMessage_try e aiT now (Some d) s = (None, s))
       \<and> handleMessage_try e aiT now None s = (Some SyntaxError, s)
       \<and> handleMessage e aiT now None s = s
       \<and> handleMessage e aiT now parsed s = snd (handleMessage_try e aiT now parsed s)
       \<and> wsRef (handleMessage e aiT now parsed s) = wsRef s
       \<and> (isConnected s \<longrightarrow> isConnected (handleMessage e aiT now parsed s))"
proof -
  have 1: "handleMessage e aiT now (Some d) s = s"
  proof (cases "nullish d")
    case True
    then show ?thesis by (simp add: handleMessage_def handleMessage_try_def dispatch_def)
  next
    case False
    then show ?thesis
      by (simp add: handleMessage_def handleMessage_try_def unhandled_dispatch [OF ty])
  qed
  have 2: "\<not> nullish d \<longrightarrow> handleMessage_try e aiT now (Some d) s = (None, s)"
    by (simp add: handleMessage_try_def unhandled_dispatch [OF ty])
  have 3: "handleMessage_try e aiT now None s = (Some SyntaxError, s)"
    "handleMessage e aiT now None s = s"
    "handleMessage e aiT now parsed s = snd (handleMessage_try e aiT now parsed s)"
    by (simp_all add: handleMessage_def handleMessage_try_def)
  from handleMessage_keeps [of s e aiT now parsed]
  have 4: "wsRef (handleMessage e aiT now parsed s) = wsRef s"
    "isConnected s \<longrightarrow> isConnected (handleMessage e aiT now parsed s)"
    by (simp_all add: keepsSession_def)
  from 1 2 3 4 show ?thesis by (intro conjI)
qed

lemma handleMessage_returns_example:
  "handleMessage exampleEnv [] 0 (Some (JObj [(''type'', JStr ''rate_limits.updated'')]))
     (initialState\<lparr>isConnected := True, wsRef := Some OPEN\<rparr>)
     = initialState\<lparr>isConnected := True, wsRef := Some OPEN\<rparr>
   \<and> handleMessage_try exampleEnv [] 0 (Some (JObj [(''type'', JStr ''context_update'')]))
       (initialState\<lparr>isConnected := True, wsRef := Some OPEN\<rparr>)
       = (Some TypeError, initialState\<lparr>isConnected := True, wsRef := Some OPEN\<rparr>)
   \<and> wsRef (handleMessage exampleEnv [] 0 (Some (JObj [(''type'', JStr ''context_update'')]))
       (initialState\<lparr>isConnected := True, wsRef := Some OPEN\<rparr>)) = Some OPEN
   \<and> isConnected (handleMessage exampleEnv [] 0 (Some (JObj [(''type'', JStr ''context_update'')]))
       (initialState\<lparr>isConnected := True, wsRef := Some OPEN\<rparr>))"
proof -
  define s where "s = initialState\<lparr>isConnected := True, wsRef := Some OPEN\<rparr>"
  have ty: "\<forall>t \<in> set handledTypes.
      js_prop (JObj [(''type'', JStr ''rate_limits.updated'')]) ''type'' \<noteq> JStr t"
    by (simp add: handledTypes_def)
  have s: "wsRef s = Some OPEN" "isConnected s" by (simp_all add: s_def)
  note t = handleMessage_returns [OF ty,
      where e = exampleEnv and aiT = "[]" and now = 0 and s = s
        and parsed = "Some (JObj [(''type'', JStr ''context_update'')])"]
  from t have a: "handleMessage exampleEnv [] 0
      (Some (JObj [(''type'', JStr ''rate_limits.updated'')])) s = s" by (rule conjunct1)
  have b: "handleMessage_try exampleEnv [] 0 (Some (JObj [(''type'', JStr ''context_update'')])) s
             = (Some TypeError, s)"
    by (simp add: handleMessage_try_def dispatch_def handleContextUpdate_def nullish_def)
  from t have "wsRef (handleMessage exampleEnv [] 0
      (Some (JObj [(''type'', JStr ''context_update'')])) s) = wsRef s" by blast
  then have c: "wsRef (handleMessage exampleEnv [] 0
      (Some (JObj [(''type'', JStr ''context_update'')])) s) = Some OPEN" by (simp only: s)
  from t s(2) have d: "isConnected (handleMessage exampleEnv [] 0
      (Some (JObj [(''type'', JStr ''context_update'')])) s)" by blast
  from a b c d show ?thesis unfolding s_def by (intro conjI)
qed

section \<open>Lesson-audio handoff\<close>

lemma sessionUp_run:
  "run exampleEnv initialState sessionUp =
     initialState
       \<lparr>isConnected := True, wsRef := Some OPEN,
        messages := [\<lparr>role = RSystem,
           content = JStr ''Voice assistant ready. Press Space or click the microphone to start speaking.''\<rparr>]\<rparr>"
  by (simp add: run_def sessionUp_def connect_def initialState_def handleMessage_def
        handleMessage_try_def dispatch_def nullish_def sessionCreatedMsg_def addMessage_def)

lemma run_Nil: "run e s [] = s"
  by (simp add: run_def)

lemma run_Cons: "run e s (ev # evs) = run e (step e s ev) evs"
  by (simp add: run_def)

lemma run_append: "run e s (evs @ evs') = run e (run e s evs) evs'"
  by (simp add: run_def)

lemmas handoff_defs =
  handleMessage_def handleMessage_try_def dispatch_def handleContextUpdate_def nullish_def
  opt_get_def setCurrentContext_def addMessage_def truthyStr_def toggleListening_def
  playPendingLessonAudio_def startAudioCapture_def stopAudioCapture_def connect_def
  resumeAI_def stopLessonAudio_def exampleEnv_def initialState_def Let_def

text \<open>
  C1, on the code. After \<open>handoffRace\<close> the microphone is captured and streamed while the
  lesson narration plays: \<^verbatim>\<open>start_lesson\<close> stops a capture that is running, but a capture
  started before the turn completes is left running when the next toggle starts the
  narration.
\<close>

theorem handoff_overlap:
  "isListening (run exampleEnv initialState handoffRace)
   \<and> isListeningRef (run exampleEnv initialState handoffRace)
   \<and> processorRef (run exampleEnv initialState handoffRace)
   \<and> mediaStreamRef (run exampleEnv initialState handoffRace)
   \<and> wsRef (run exampleEnv initialState handoffRace) = Some OPEN
   \<and> lessonAudioPlaying (run exampleEnv initialState handoffRace)
   \<and> lessonAudioRef (run exampleEnv initialState handoffRace)
       = Some ''http://localhost:8000/media/lesson3.mp3''"
  unfolding handoffRace_def run_append sessionUp_run
  by (simp add: run_Cons run_Nil startLessonMsg_def responseDoneMsg_def handoff_defs)

lemma step_sync:
  assumes "isListening s = isListeningRef s"
  shows "isListening (step e s ev) = isListeningRef (step e s ev)"
proof (cases ev)
  case (SocketMessage now parsed)
  then show ?thesis
    using assms handleMessage_keeps [of s e "onmessageTranscript s" now parsed]
    by (simp add: keepsSession_def)
qed (use assms in \<open>simp_all add: connect_def ws_onerror_def ws_onclose_def stopAudioCapture_def
       toggleListening_def playPendingLessonAudio_def resumeAI_def stopLessonAudio_def
       startAudioCapture_def addMessage_def onaudioprocess_def source_onended_def
       audio_onended_def audio_onerror_def audio_play_rejected_def Let_def\<close>)

lemma run_sync_from:
  "isListening s = isListeningRef s \<Longrightarrow>
   isListening (run e s evs) = isListeningRef (run e s evs)"
  by (induction evs arbitrary: s) (simp_all add: run_Nil run_Cons step_sync)

lemma run_sync: "isListening (run e initialState evs) = isListeningRef (run e initialState evs)"
  by (rule run_sync_from) (simp add: initialState_def)

text \<open>The state of a pending handoff: narration stored, capture off.\<close>

lemma start_lesson_handoff:
  assumes sync: "isListening s = isListeningRef s"
    and m: "js_prop m ''type'' = JStr ''context_update''"
    and a: "js_prop (js_prop m ''data'') ''action'' = JStr ''start_lesson''"
    and h: "truthy (js_prop (js_prop m ''data'') ''has_audio'')"
    and u: "opt_get (js_prop (js_prop m ''data'') ''lesson'') ''audio_url'' = JStr u" "u \<noteq> []"
  shows "pendingLessonAudio (handleMessage e aiT now (Some m) s)
           = Some (if take 4 u = ''http'' then u else VITE_API_URL e @ u)"
    and "pendingLessonAudioRef (handleMessage e aiT now (Some m) s)
           = Some (if take 4 u = ''http'' then u else VITE_API_URL e @ u)"
    and "\<not> isListening (handleMessage e aiT now (Some m) s)"
    and "\<not> isListeningRef (handleMessage e aiT now (Some m) s)"
proof -
  have nn: "\<not> nullish m" "\<not> nullish (js_prop m ''data'')"
    using m a by (auto simp: nullish_def)
  show "pendingLessonAudio (handleMessage e aiT now (Some m) s)
           = Some (if take 4 u = ''http'' then u else VITE_API_URL e @ u)"
    and "pendingLessonAudioRef (handleMessage e aiT now (Some m) s)
           = Some (if take 4 u = ''http'' then u else VITE_API_URL e @ u)"
    and "\<not> isListening (handleMessage e aiT now (Some m) s)"
    and "\<not> isListeningRef (handleMessage e aiT now (Some m) s)"
    using nn m a h u sync
    by (simp_all add: handleMessage_def handleMessage_try_def dispatch_def
          handleContextUpdate_def setCurrentContext_def Let_def)
qed

lemma deliverAll_Nil: "deliverAll e aiT s [] = s"
  by (simp add: deliverAll_def)

lemma deliverAll_Cons:
  "deliverAll e aiT s ((now, m) # ms) = deliverAll e aiT (handleMessage e aiT now (Some m) s) ms"
  by (simp add: deliverAll_def)

lemma deliverAll_pending:
  assumes "truthyStr (pendingLessonAudio s)" "truthyStr (pendingLessonAudioRef s)"
    "\<not> isListening s" "\<not> isListeningRef s"
  shows "truthyStr (pendingLessonAudio (deliverAll e aiT s ms))
       \<and> truthyStr (pendingLessonAudioRef (deliverAll e aiT s ms))
       \<and> \<not> isListening (deliverAll e aiT s ms) \<and> \<not> isListeningRef (deliverAll e aiT s ms)"
  using assms
proof (induction ms arbitrary: s)
  case Nil
  then show ?case by (simp add: deliverAll_Nil)
next
  case (Cons x ms)
  obtain now m where x: "x = (now, m)" by (cases x)
  from handleMessage_keeps [of s e aiT now "Some m"] Cons.prems
  have "truthyStr (pendingLessonAudio (handleMessage e aiT now (Some m) s))"
    "truthyStr (pendingLessonAudioRef (handleMessage e aiT now (Some m) s))"
    "\<not> isListening (handleMessage e aiT now (Some m) s)"
    "\<not> isListeningRef (handleMessage e aiT now (Some m) s)"
    by (simp_all add: keepsSession_def)
  from Cons.IH [OF this] show ?case by (simp add: x deliverAll_Cons)
qed

lemma response_done_ready:
  assumes dn: "js_prop dn ''type'' = JStr ''response.done''"
    and ok: "fst (handleMessage_try e aiT now (Some dn) s) = None"
    and p: "truthyStr (pendingLessonAudioRef s)"
  shows "readyToPlayLessonAudio (handleMessage e aiT now (Some dn) s)"
    and "aiPaused (handleMessage e aiT now (Some dn) s)"
    and "pendingLessonAudio (handleMessage e aiT now (Some dn) s) = pendingLessonAudio s"
proof -
  have nn: "\<not> nullish dn" using dn by (auto simp: nullish_def)
  show "readyToPlayLessonAudio (handleMessage e aiT now (Some dn) s)"
    and "aiPaused (handleMessage e aiT now (Some dn) s)"
    and "pendingLessonAudio (handleMessage e aiT now (Some dn) s) = pendingLessonAudio s"
    using nn dn ok p
    by (simp_all add: handleMessage_def handleMessage_try_def dispatch_def addMessage_def
          rateLimited_def Let_def split: jsval.splits option.splits if_splits)
qed

lemma toggle_plays_narration:
  assumes "readyToPlayLessonAudio s" "truthyStr (pendingLessonAudio s)"
  shows "toggleListening granted s = playPendingLessonAudio s"
    and "lessonAudioPlaying (toggleListening granted s)"
    and "\<not> readyToPlayLessonAudio (toggleListening granted s)"
    and "lessonAudioRef (toggleListening granted s) = pendingLessonAudio s"
    and "isListening (toggleListening granted s) = isListening s"
    and "isListeningRef (toggleListening granted s) = isListeningRef s"
  using assms by (simp_all add: toggleListening_def playPendingLessonAudio_def addMessage_def)

lemma responseDoneMsg_returns:
  "fst (handleMessage_try e aiT now (Some responseDoneMsg) s) = None"
  by (simp add: handleMessage_try_def dispatch_def nullish_def opt_get_def responseDoneMsg_def
        Let_def)

text \<open>
  C2, as stated, at a \<^verbatim>\<open>start_lesson\<close> update that carries \<^verbatim>\<open>has_audio = true\<close> and a lesson
  without an audio URL: the turn-complete event does not set \<open>readyToPlay\<close>, and the next
  toggle starts listening instead of a narration.
\<close>

theorem lesson_handoff_counterexample:
  "truthy (js_prop (js_prop startLessonNoUrlMsg ''data'') ''has_audio'')
   \<and> \<not> readyToPlayLessonAudio (run exampleEnv initialState handoffNoUrl)
   \<and> isListening (run exampleEnv initialState (handoffNoUrl @ [Toggle True]))
   \<and> \<not> lessonAudioPlaying (run exampleEnv initialState (handoffNoUrl @ [Toggle True]))"
  unfolding handoffNoUrl_def run_append sessionUp_run
  by (simp add: run_Cons run_Nil startLessonNoUrlMsg_def responseDoneMsg_def handoff_defs)

text \<open>
  C2, amended. In any reachable state, let a \<^verbatim>\<open>start_lesson\<close> update arrive that carries a
  truthy \<^verbatim>\<open>has_audio\<close> and a lesson whose \<^verbatim>\<open>audio_url\<close> is a non-empty string. Capture is then
  off and the narration URL is stored. After any further inbound messages, a
  \<^verbatim>\<open>response.done\<close> message whose handling does not throw sets \<open>readyToPlay\<close> and \<open>paused\<close>
  with capture still off, and the next toggle starts the narration, clears
  \<open>readyToPlay\<close> and does not start listening.
\<close>

theorem lesson_handoff:
  fixes mid :: "(real \<times> jsval) list"
  assumes m: "js_prop m ''type'' = JStr ''context_update''"
    and a: "js_prop (js_prop m ''data'') ''action'' = JStr ''start_lesson''"
    and h: "truthy (js_prop (js_prop m ''data'') ''has_audio'')"
    and u: "opt_get (js_prop (js_prop m ''data'') ''lesson'') ''audio_url'' = JStr u" "u \<noteq> []"
    and dn: "js_prop dn ''type'' = JStr ''response.done''"
    and s1: "s1 = handleMessage e aiT n1 (Some m) (run e initialState evs)"
    and s2: "s2 = deliverAll e aiT s1 mid"
    and ok: "fst (handleMessage_try e aiT n3 (Some dn) s2) = None"
    and s3: "s3 = handleMessage e aiT n3 (Some dn) s2"
    and s4: "s4 = toggleListening granted s3"
  shows "\<not> isListening s1 \<and> \<not> isListeningRef s1
       \<and> pendingLessonAudio s1 = Some (if take 4 u = ''http'' then u else VITE_API_URL e @ u)
       \<and> readyToPlayLessonAudio s3 \<and> aiPaused s3 \<and> \<not> isListening s3 \<and> \<not> isListeningRef s3
       \<and> lessonAudioPlaying s4 \<and> \<not> readyToPlayLessonAudio s4
       \<and> lessonAudioRef s4 = pendingLessonAudio s3 \<and> truthyStr (lessonAudioRef s4)
       \<and> \<not> isListening s4 \<and> \<not> isListeningRef s4"
proof -
  note sl = start_lesson_handoff
    [where s = "run e initialState evs" and e = e and aiT = aiT and now = n1,
     OF run_sync m a h u, folded s1]
  have url: "truthyStr (Some (if take 4 u = ''http'' then u else VITE_API_URL e @ u))"
    using u(2) by (simp add: truthyStr_def)
  have p1: "truthyStr (pendingLessonAudio s1)" "truthyStr (pendingLessonAudioRef s1)"
    using url by (simp_all only: sl)
  from deliverAll_pending [where e = e and aiT = aiT and ms = mid, OF p1 sl(3) sl(4)]
  have q2: "truthyStr (pendingLessonAudio s2)" "truthyStr (pendingLessonAudioRef s2)"
    "\<not> isListening s2" "\<not> isListeningRef s2"
    by (simp_all add: s2)
  note rd = response_done_ready [OF dn ok q2(2), folded s3]
  from handleMessage_keeps [of s2 e aiT n3 "Some dn"] q2
  have l3: "\<not> isListening s3" "\<not> isListeningRef s3"
    by (simp_all add: keepsSession_def s3)
  have p3: "truthyStr (pendingLessonAudio s3)" using rd(3) q2(1) by simp
  note tg = toggle_plays_narration [where granted = granted, OF rd(1) p3, folded s4]
  from sl(1,3,4) rd(1,2) l3 tg(2,3,4,5,6) p3 show ?thesis by simp
qed

theorem lesson_handoff_witness:
  "let s1 = handleMessage exampleEnv [] 1 (Some startLessonMsg) (run exampleEnv initialState sessionUp);
       s2 = deliverAll exampleEnv [] s1 exampleChunks;
       s3 = handleMessage exampleEnv [] 2 (Some responseDoneMsg) s2;
       s4 = toggleListening True s3
   in fst (handleMessage_try exampleEnv [] 2 (Some responseDoneMsg) s2) = None
      \<and> pendingLessonAudio s1 = Some ''http://localhost:8000/media/lesson3.mp3''
      \<and> readyToPlayLessonAudio s3 \<and> \<not> isListening s3
      \<and> lessonAudioPlaying s4 \<and> \<not> readyToPlayLessonAudio s4 \<and> \<not> isListening s4"
proof -
  have m: "js_prop startLessonMsg ''type'' = JStr ''context_update''"
    and a: "js_prop (js_prop startLessonMsg ''data'') ''action'' = JStr ''start_lesson''"
    and h: "truthy (js_prop (js_prop startLessonMsg ''data'') ''has_audio'')"
    and u: "opt_get (js_prop (js_prop startLessonMsg ''data'') ''lesson'') ''audio_url''
              = JStr ''/media/lesson3.mp3''" "''/media/lesson3.mp3'' \<noteq> []"
    and dn: "js_prop responseDoneMsg ''type'' = JStr ''response.done''"
    by (simp_all add: startLessonMsg_def responseDoneMsg_def opt_get_def nullish_def)
  have url: "(if take 4 ''/media/lesson3.mp3'' = ''http'' then ''/media/lesson3.mp3''
              else VITE_API_URL exampleEnv @ ''/media/lesson3.mp3'')
             = ''http://localhost:8000/media/lesson3.mp3''"
    by (simp add: exampleEnv_def)
  note t = lesson_handoff
    [where e = exampleEnv and aiT = "[]" and ?n1.0 = 1 and evs = sessionUp
       and mid = exampleChunks and ?n3.0 = 2 and granted = True,
     OF m a h u dn refl refl responseDoneMsg_returns refl refl]
  from t responseDoneMsg_returns show ?thesis
    unfolding Let_def url by (intro conjI) (elim conjE, assumption)+
qed

text \<open>
  C8, as stated, at a playback error of a playing narration: the message appended has
  the role \<open>error\<close>, not \<open>system\<close>, and says only that the lesson audio failed to play.
\<close>

theorem narration_error_counterexample:
  "lessonAudioPlaying (run exampleEnv initialState narrationPlaying)
   \<and> last (messages (run exampleEnv initialState (narrationPlaying @ [LessonAudioError])))
       = \<lparr>role = RError, content = JStr ''Failed to play lesson audio.''\<rparr>
   \<and> RError \<noteq> RSystem"
  unfolding narrationPlaying_def run_append sessionUp_run
  by (simp add: run_Cons run_Nil startLessonMsg_def responseDoneMsg_def handoff_defs
        audio_onerror_def)

text \<open>
  C8, amended. The narration can stop in three ways: the element's \<^verbatim>\<open>ended\<close> event, the
  element's \<^verbatim>\<open>error\<close> event, and the rejection of the promise returned by \<^verbatim>\<open>audio.play()\<close>.
  On each of them the pending URL (state and ref), the paused flag, the playing flag and
  the element are cleared. On the end a system-role message inviting the user to press
  Space to resume voice interaction is appended to the log; on the \<^verbatim>\<open>error\<close> event the
  message appended has the role \<open>error\<close> and the text \<open>Failed to play lesson audio.\<close>; on a
  rejected \<^verbatim>\<open>play()\<close> nothing is appended and the log stays as it was.
\<close>

theorem narration_end_or_error:
  "pendingLessonAudio (audio_onended s) = None
   \<and> pendingLessonAudioRef (audio_onended s) = None
   \<and> \<not> aiPaused (audio_onended s)
   \<and> \<not> lessonAudioPlaying (audio_onended s)
   \<and> lessonAudioRef (audio_onended s) = None
   \<and> messages (audio_onended s) = messages s @
        [\<lparr>role = RSystem,
          content = JStr (glyphCheck
            @ '' Lesson audio finished. Press Space to resume voice interaction.'')\<rparr>]
   \<and> pendingLessonAudio (audio_onerror s) = None
   \<and> pendingLessonAudioRef (audio_onerror s) = None
   \<and> \<not> aiPaused (audio_onerror s)
   \<and> \<not> lessonAudioPlaying (audio_onerror s)
   \<and> lessonAudioRef (audio_onerror s) = None
   \<and> messages (audio_onerror s) = messages s @
        [\<lparr>role = RError, content = JStr ''Failed to play lesson audio.''\<rparr>]
   \<and> (lessonAudioRef s \<noteq> None \<longrightarrow>
         step e s LessonAudioEnded = audio_onended s \<and> step e s LessonAudioError = audio_onerror s)
   \<and> pendingLessonAudio (audio_play_rejected s) = None
   \<and> pendingLessonAudioRef (audio_play_rejected s) = None
   \<and> \<not> aiPaused (audio_play_rejected s)
   \<and> \<not> lessonAudioPlaying (audio_play_rejected s)
   \<and> lessonAudioRef (audio_play_rejected s) = None
   \<and> messages (audio_play_rejected s) = messages s
   \<and> (lessonAudioRef s \<noteq> None \<longrightarrow>
         step e s LessonAudioPlayRejected = audio_play_rejected s)"
proof -
  have ended: "pendingLessonAudio (audio_onended s) = None
     \<and> pendingLessonAudioRef (audio_onended s) = None
     \<and> \<not> aiPaused (audio_onended s)
     \<and> \<not> lessonAudioPlaying (audio_onended s)
     \<and> lessonAudioRef (audio_onended s) = None
     \<and> messages (audio_onended s) = messages s @
        [\<lparr>role = RSystem,
          content = JStr (glyphCheck
            @ '' Lesson audio finished. Press Space to resume voice interaction.'')\<rparr>]"
    by (simp add: audio_onended_def addMessage_def)
  have failed: "pendingLessonAudio (audio_onerror s) = None
     \<and> pendingLessonAudioRef (audio_onerror s) = None
     \<and> \<not> aiPaused (audio_onerror s)
     \<and> \<not> lessonAudioPlaying (audio_onerror s)
     \<and> lessonAudioRef (audio_onerror s) = None
     \<and> messages (audio_onerror s) = messages s @
        [\<lparr>role = RError, content = JStr ''Failed to play lesson audio.''\<rparr>]"
    by (simp add: audio_onerror_def addMessage_def)
  have st: "lessonAudioRef s \<noteq> None \<longrightarrow>
         step e s LessonAudioEnded = audio_onended s \<and> step e s LessonAudioError = audio_onerror s"
    by simp
  have rejected: "pendingLessonAudio (audio_play_rejected s) = None
     \<and> pendingLessonAudioRef (audio_play_rejected s) = None
     \<and> \<not> aiPaused (audio_play_rejected s)
     \<and> \<not> lessonAudioPlaying (audio_play_rejected s)
     \<and> lessonAudioRef (audio_play_rejected s) = None
     \<and> messages (audio_play_rejected s) = messages s"
    by (simp add: audio_play_rejected_def)
  have st': "lessonAudioRef s \<noteq> None \<longrightarrow>
         step e s LessonAudioPlayRejected = audio_play_rejected s"
    by simp
  from ended failed st rejected st' show ?thesis by (simp only: simp_thms)
qed

theorem narration_end_or_error_witness:
  "lessonAudioRef (run exampleEnv initialState narrationPlaying) \<noteq> None
   \<and> step exampleEnv (run exampleEnv initialState narrationPlaying) LessonAudioEnded
       = audio_onended (run exampleEnv initialState narrationPlaying)
   \<and> pendingLessonAudio (audio_onended (run exampleEnv initialState narrationPlaying)) = None
   \<and> \<not> aiPaused (audio_onerror (run exampleEnv initialState narrationPlaying))
   \<and> step exampleEnv (run exampleEnv initialState narrationPlaying) LessonAudioPlayRejected
       = audio_play_rejected (run exampleEnv initialState narrationPlaying)
   \<and> messages (audio_play_rejected (run exampleEnv initialState narrationPlaying))
       = messages (run exampleEnv initialState narrationPlaying)"
proof -
  have r: "lessonAudioRef (run exampleEnv initialState narrationPlaying) \<noteq> None"
    unfolding narrationPlaying_def run_append sessionUp_run
    by (simp add: run_Cons run_Nil startLessonMsg_def responseDoneMsg_def handoff_defs)
  note t = narration_end_or_error
    [where s = "run exampleEnv initialState narrationPlaying" and e = exampleEnv]
  from t r have a: "step exampleEnv (run exampleEnv initialState narrationPlaying) LessonAudioEnded
       = audio_onended (run exampleEnv initialState narrationPlaying)" by blast
  from t have b: "pendingLessonAudio (audio_onended (run exampleEnv initialState narrationPlaying)) = None"
    by (rule conjunct1)
  from t have c: "\<not> aiPaused (audio_onerror (run exampleEnv initialState narrationPlaying))"
    by blast
  from t r have d: "step exampleEnv (run exampleEnv initialState narrationPlaying)
       LessonAudioPlayRejected
       = audio_play_rejected (run exampleEnv initialState narrationPlaying)" by blast
  from t have e: "messages (audio_play_rejected (run exampleEnv initialState narrationPlaying))
       = messages (run exampleEnv initialState narrationPlaying)" by blast
  from r a b c d e show ?thesis by (intro conjI)
qed

section \<open>Rendering after a handled message\<close>

text \<open>
  C9, on the code. A \<^verbatim>\<open>start_quiz\<close> update without \<^verbatim>\<open>questions\<close> arrives on a session that is
  up. The handler throws nothing, so its \<^verbatim>\<open>catch\<close> has nothing to catch; the socket is still
  open and the dialogue context holds the guarded empty list, but the display has stored
  \<^verbatim>\<open>questions\<close> as \<^verbatim>\<open>undefined\<close>. The render that follows reads \<^verbatim>\<open>questions[currentIndex]\<close>
  and throws a \<^verbatim>\<open>TypeError\<close>; the page is unmounted and its cleanup closes the socket. Before
  the message the same render returned without reading anything.
\<close>

theorem malformed_quiz_ends_session:
  "wsRef (run exampleEnv initialState sessionUp) = Some OPEN
   \<and> isConnected (run exampleEnv initialState sessionUp)
   \<and> renderPage (run exampleEnv initialState sessionUp)
       = (None, run exampleEnv initialState sessionUp)
   \<and> handleMessage_try exampleEnv [] 1 (Some startQuizNoQuestionsMsg)
         (run exampleEnv initialState sessionUp)
       = (None, run exampleEnv initialState quizNoQuestions)
   \<and> wsRef (run exampleEnv initialState quizNoQuestions) = Some OPEN
   \<and> isConnected (run exampleEnv initialState quizNoQuestions)
   \<and> quizQuestions (currentContext (run exampleEnv initialState quizNoQuestions)) = JArr []
   \<and> js_prop (displayContent (run exampleEnv initialState quizNoQuestions)) ''questions''
       = JUndefined
   \<and> renderQuizDisplay (run exampleEnv initialState quizNoQuestions) = Some TypeError
   \<and> renderPage (run exampleEnv initialState quizNoQuestions)
       = (Some (1000, ''Component unmounted''),
          (run exampleEnv initialState quizNoQuestions)\<lparr>wsRef := None\<rparr>)"
proof -
  have before: "wsRef (run exampleEnv initialState sessionUp) = Some OPEN"
    "isConnected (run exampleEnv initialState sessionUp)"
    "renderPage (run exampleEnv initialState sessionUp)
       = (None, run exampleEnv initialState sessionUp)"
    unfolding sessionUp_run
    by (simp_all add: initialState_def renderPage_def renderQuizDisplay_def)
  have handled: "handleMessage_try exampleEnv [] 1 (Some startQuizNoQuestionsMsg)
         (run exampleEnv initialState sessionUp)
       = (None, run exampleEnv initialState quizNoQuestions)"
    unfolding quizNoQuestions_def run_append sessionUp_run
    by (simp add: run_Cons run_Nil startQuizNoQuestionsMsg_def handoff_defs)
  have after: "wsRef (run exampleEnv initialState quizNoQuestions) = Some OPEN"
    "isConnected (run exampleEnv initialState quizNoQuestions)"
    "quizQuestions (currentContext (run exampleEnv initialState quizNoQuestions)) = JArr []"
    "js_prop (displayContent (run exampleEnv initialState quizNoQuestions)) ''questions''
       = JUndefined"
    unfolding quizNoQuestions_def run_append sessionUp_run
    by (simp_all add: run_Cons run_Nil startQuizNoQuestionsMsg_def handoff_defs js_or_def)
  have disp: "displayContent (run exampleEnv initialState quizNoQuestions)
       = JObj [(''type'', JStr ''quiz''),
               (''quiz'', JObj [(''id'', JNum 7), (''title'', JStr ''Cells'')]),
               (''questions'', JUndefined), (''currentIndex'', JNum 0)]"
    unfolding quizNoQuestions_def run_append sessionUp_run
    by (simp add: run_Cons run_Nil startQuizNoQuestionsMsg_def handoff_defs)
  have thrown: "renderQuizDisplay (run exampleEnv initialState quizNoQuestions) = Some TypeError"
    unfolding renderQuizDisplay_def disp by (simp add: nullish_def)
  have unmounted: "renderPage (run exampleEnv initialState quizNoQuestions)
       = (Some (1000, ''Component unmounted''),
          (run exampleEnv initialState quizNoQuestions)\<lparr>wsRef := None\<rparr>)"
    unfolding renderPage_def thrown by (simp add: unmountCleanup_def after(1))
  from before handled after thrown unmounted show ?thesis by (intro conjI)
qed

end
